theory Spec2Isabelle
  imports Complex_Main "HOL-Library.Word" "HOL-Library.Char_ord" "HOL-Library.List_Lexorder"
begin

unbundle bit_operations_syntax

section \<open>Terms (src/lang/terms.cpp)\<close>

text \<open>
  A C++ \<open>double\<close>. Finite values are kept as the exact rational they denote (rounding
  to binary64 is not modelled); \<open>operator==\<close> on doubles is \<open>double_eq\<close>, which
  is false on NaN.
\<close>

datatype double = Finite rat | PosInf | NegInf | NaN

fun double_eq :: "double \<Rightarrow> double \<Rightarrow> bool" where
  "double_eq (Finite a) (Finite b) = (a = b)"
| "double_eq PosInf PosInf = True"
| "double_eq NegInf NegInf = True"
| "double_eq _ _ = False"

text \<open>\<open>PredicateIndicator\<close>: the functor (a std::string) and the arity
  (unsigned int).\<close>

datatype PredicateIndicator = PredicateIndicator (indicator_functor: string) (indicator_arity: "32 word")

text \<open>
  \<open>PredicateIndicator::operator<\<close>. \<open>std::string\<close> compares lexicographically by
  unsigned character value, which is the order of \<open>char list\<close> here.
\<close>

definition PredicateIndicator_less :: "PredicateIndicator \<Rightarrow> PredicateIndicator \<Rightarrow> bool" where
  "PredicateIndicator_less this other \<longleftrightarrow>
     (indicator_functor other < indicator_functor this) \<or> (indicator_arity other < indicator_arity this)"

text \<open>
  The term classes. A \<open>Predicate\<close> holds its indicator and its argument vector; the
  constructor that takes an indicator does not compare the arity with the number of
  arguments. \<open>TopTerm\<close> and \<open>BottomTerm\<close> are the singletons returned by
  \<open>TopTerm::get()\<close> and \<open>BottomTerm::get()\<close>.
\<close>

datatype Term =
    Variable string
  | StringTerm string
  | DoubleTerm double
  | Integer32Term "32 word"
  | LongTerm "64 word"
  | Predicate PredicateIndicator "Term list"
  | ListTerm "Term list"
  | TopTerm
  | BottomTerm

text \<open>
  Failures of the C++ code that are not ordinary results: exceptions thrown by the
  parser and the reasoner manager, and the undefined behaviour of reading a vector
  out of range, dereferencing a null pointer, using an erased map iterator or casting
  a term to a class it does not have. A \<open>QueryError\<close> carries the arguments of its
  message: the query string of "Query string ({}) has invalid syntax.", the name and
  the prefix of "Cannot construct IRI for '{}': IRI prefix '{}' is not registered!",
  the option of "Unrecognized option ({}) in modal operator.".
  \<open>OutOfFuel\<close> is not a behaviour of the program: it is the value of the
  fuel-bounded parser model when its fuel is used up.
\<close>

datatype Error =
    OutOfRange
  | NullPointer
  | InvalidIterator
  | BadCast
  | QueryError_InvalidSyntax string
  | QueryError_IRI string string
  | QueryError_UnrecognizedOption Term
  | ReasonerError string
  | OutOfFuel

text \<open>A \<open>std::shared_ptr<Term>\<close>; \<open>None\<close> is the null pointer.\<close>

type_synonym TermPtr = "Term option"

datatype TermType = VARIABLE | STRING | DOUBLE | INT32 | LONG | PREDICATE | LIST | TOP | BOTTOM

fun termType :: "Term \<Rightarrow> TermType" where
  "termType (Variable _) = VARIABLE"
| "termType (StringTerm _) = STRING"
| "termType (DoubleTerm _) = DOUBLE"
| "termType (Integer32Term _) = INT32"
| "termType (LongTerm _) = LONG"
| "termType (Predicate _ _) = PREDICATE"
| "termType (ListTerm _) = LIST"
| "termType TopTerm = TOP"
| "termType BottomTerm = BOTTOM"

definition isBottom :: "Term \<Rightarrow> bool" where
  "isBottom t \<longleftrightarrow> termType t = BOTTOM"

definition isTop :: "Term \<Rightarrow> bool" where
  "isTop t \<longleftrightarrow> termType t = TOP"

text \<open>The constructor \<open>Predicate(functor, arguments)\<close>: the arity is the size of the
  argument vector, converted to unsigned int.\<close>

definition Predicate_new :: "string \<Rightarrow> Term list \<Rightarrow> Term" where
  "Predicate_new f arguments = Predicate (PredicateIndicator f (of_nat (length arguments))) arguments"

text \<open>
  Modelled from the spec: \<open>isGround\<close> of the term classes other than \<open>Predicate\<close>,
  which are declared outside the files at hand: a term is ground "iff no Variable
  [is] reachable". For a predicate it is the flag computed by \<open>Predicate::isGround1\<close>
  at construction; terms are immutable, so the flag is this function of the
  arguments.
\<close>

fun isGround :: "Term \<Rightarrow> bool" where
  "isGround (Variable _) = False"
| "isGround (Predicate _ arguments) = list_all isGround arguments"
| "isGround (ListTerm elements) = list_all isGround elements"
| "isGround _ = True"

section \<open>The variable-to-term map\<close>

text \<open>
  \<open>std::map<Variable, std::shared_ptr<Term>>\<close>: an association list kept in key order,
  the order in which the C++ code iterates. A variable is ordered by its name
  (\<open>Variable::operator<\<close>), so the key is the name. \<open>map_place\<close> puts a new
  entry at its place in the key order; \<open>map_insert\<close> is
  \<open>std::map::insert\<close> (an existing key keeps its value), \<open>map_put\<close> is
  \<open>mapping_[k] = v\<close>, \<open>map_assign\<close> is \<open>it->second = v\<close> for the entry of key
  \<open>k\<close>, \<open>map_erase\<close> removes the entry.
\<close>

type_synonym Mapping = "(string \<times> TermPtr) list"

definition map_find :: "('k \<times> 'v) list \<Rightarrow> 'k \<Rightarrow> 'v option" where
  "map_find m k = map_of m k"

fun map_place :: "'k::linorder \<Rightarrow> 'v \<Rightarrow> ('k \<times> 'v) list \<Rightarrow> ('k \<times> 'v) list" where
  "map_place k v [] = [(k, v)]"
| "map_place k v ((k', v') # m) =
     (if k < k' then (k, v) # (k', v') # m else (k', v') # map_place k v m)"

definition map_insert :: "'k::linorder \<Rightarrow> 'v \<Rightarrow> ('k \<times> 'v) list \<Rightarrow> ('k \<times> 'v) list" where
  "map_insert k v m = (case map_find m k of None \<Rightarrow> map_place k v m | Some _ \<Rightarrow> m)"

fun map_assign :: "'k \<Rightarrow> 'v \<Rightarrow> ('k \<times> 'v) list \<Rightarrow> ('k \<times> 'v) list" where
  "map_assign k v [] = []"
| "map_assign k v ((k', v') # m) =
     (if k = k' then (k', v) # m else (k', v') # map_assign k v m)"

definition map_put :: "'k::linorder \<Rightarrow> 'v \<Rightarrow> ('k \<times> 'v) list \<Rightarrow> ('k \<times> 'v) list" where
  "map_put k v m = (case map_find m k of None \<Rightarrow> map_place k v m | Some _ \<Rightarrow> map_assign k v m)"

fun map_erase :: "'k \<Rightarrow> ('k \<times> 'v) list \<Rightarrow> ('k \<times> 'v) list" where
  "map_erase k [] = []"
| "map_erase k ((k', v') # m) = (if k = k' then m else (k', v') # map_erase k m)"

text \<open>\<open>Substitution::get\<close>: the bound term, or the null pointer when the variable
  has no entry.\<close>

definition Substitution_get :: "Mapping \<Rightarrow> string \<Rightarrow> TermPtr" where
  "Substitution_get mapping var = (case map_find mapping var of Some t \<Rightarrow> t | None \<Rightarrow> None)"

definition Substitution_contains :: "Mapping \<Rightarrow> string \<Rightarrow> bool" where
  "Substitution_contains mapping var \<longleftrightarrow> map_find mapping var \<noteq> None"

section \<open>Applying a substitution (Predicate::applySubstitution)\<close>

text \<open>
  \<open>applySubstitution1\<close> is the body of the loop of \<open>Predicate::applySubstitution\<close>,
  the switch on one argument \<open>in[i]\<close>: a variable is replaced when the substitution
  returns a non-null term for it, a predicate that is not ground is rebuilt, any
  other term is kept.
\<close>

fun applySubstitution1 :: "Mapping \<Rightarrow> Term \<Rightarrow> Term" where
  "applySubstitution1 sub (Variable v) =
     (case Substitution_get sub v of None \<Rightarrow> Variable v | Some t \<Rightarrow> t)"
| "applySubstitution1 sub (Predicate ind arguments) =
     (if isGround (Predicate ind arguments) then Predicate ind arguments
      else Predicate ind (map (applySubstitution1 sub) arguments))"
| "applySubstitution1 sub t = t"

definition applySubstitution_vec :: "Term list \<Rightarrow> Mapping \<Rightarrow> Term list" where
  "applySubstitution_vec input sub = map (applySubstitution1 sub) input"

text \<open>\<open>Predicate::applySubstitution(sub)\<close>, through the copy constructor
  \<open>Predicate(other, sub)\<close>; the receiver is a predicate.\<close>

fun Predicate_applySubstitution :: "Term \<Rightarrow> Mapping \<Rightarrow> Term" where
  "Predicate_applySubstitution (Predicate ind arguments) sub =
     Predicate ind (applySubstitution_vec arguments sub)"
| "Predicate_applySubstitution t sub = t"

section \<open>Unifier (src/lang/terms.cpp)\<close>

text \<open>\<open>Substitution::set\<close> of terms.cpp: \<open>mapping_[var] = term\<close>, which inserts
  or overwrites.\<close>

definition lang_Substitution_set :: "Mapping \<Rightarrow> string \<Rightarrow> TermPtr \<Rightarrow> Mapping" where
  "lang_Substitution_set mapping var t = map_put var t mapping"

text \<open>
  \<open>Unifier::unify\<close> threads the unifier's own mapping; the result is the
  returned bool with the mapping as the call leaves it. The loop over the arguments
  is \<open>unify_args\<close>: \<open>n\<close> counts the remaining indices below the arity of \<open>p0\<close>,
  and the two lists are the argument vectors from the current index on, so an empty
  list with \<open>n > 0\<close> is a read past the end of a vector. The functor and arity test
  of the source compares \<open>p0\<close> with \<open>p0\<close> on both sides.
\<close>

fun unify :: "Term \<Rightarrow> Term \<Rightarrow> Mapping \<Rightarrow> Error + (bool \<times> Mapping)"
  and unify_args :: "nat \<Rightarrow> Term list \<Rightarrow> Term list \<Rightarrow> Mapping \<Rightarrow> Error + (bool \<times> Mapping)"
where
  "unify t0 (Variable v1) mapping = Inr (True, lang_Substitution_set mapping v1 (Some t0))"
| "unify (Variable v0) t1 mapping = Inr (True, lang_Substitution_set mapping v0 (Some t1))"
| "unify (Predicate p0 args0) t1 mapping =
     (case t1 of
        Predicate p1 args1 \<Rightarrow>
          if indicator_functor p0 \<noteq> indicator_functor p0 \<or> indicator_arity p0 \<noteq> indicator_arity p0 then Inr (False, mapping)
          else unify_args (unat (indicator_arity p0)) args0 args1 mapping
      | _ \<Rightarrow> Inr (False, mapping))"
| "unify (StringTerm s0) t1 mapping =
     Inr ((case t1 of StringTerm s1 \<Rightarrow> s0 = s1 | _ \<Rightarrow> False), mapping)"
| "unify (DoubleTerm d0) t1 mapping =
     Inr ((case t1 of DoubleTerm d1 \<Rightarrow> double_eq d0 d1 | _ \<Rightarrow> False), mapping)"
| "unify (Integer32Term i0) t1 mapping =
     Inr ((case t1 of Integer32Term i1 \<Rightarrow> i0 = i1 | _ \<Rightarrow> False), mapping)"
| "unify (LongTerm l0) t1 mapping =
     Inr ((case t1 of LongTerm l1 \<Rightarrow> l0 = l1 | _ \<Rightarrow> False), mapping)"
| "unify TopTerm t1 mapping = Inr (isTop t1, mapping)"
| "unify BottomTerm t1 mapping = Inr (isBottom t1, mapping)"
| "unify (ListTerm _) t1 mapping = Inr (False, mapping)"
| "unify_args 0 args0 args1 mapping = Inr (True, mapping)"
| "unify_args (Suc n) [] args1 mapping = Inl OutOfRange"
| "unify_args (Suc n) (a0 # args0) [] mapping = Inl OutOfRange"
| "unify_args (Suc n) (a0 # args0) (a1 # args1) mapping =
     (case unify a0 a1 mapping of
        Inl e \<Rightarrow> Inl e
      | Inr (False, mapping') \<Rightarrow> Inr (False, mapping')
      | Inr (True, mapping') \<Rightarrow> unify_args n args0 args1 mapping')"

record Unifier =
  u_t0 :: Term
  u_t1 :: Term
  u_exists :: bool
  u_mapping :: Mapping

text \<open>The constructor \<open>Unifier(t0, t1)\<close>: an empty substitution, then \<open>unify\<close>.\<close>

definition Unifier_new :: "Term \<Rightarrow> Term \<Rightarrow> Error + Unifier" where
  "Unifier_new t0 t1 =
     (case unify t0 t1 [] of
        Inl e \<Rightarrow> Inl e
      | Inr (b, m) \<Rightarrow> Inr \<lparr>u_t0 = t0, u_t1 = t1, u_exists = b, u_mapping = m\<rparr>)"

text \<open>\<open>Unifier::apply\<close>, returning a shared pointer.\<close>

definition Unifier_apply :: "Unifier \<Rightarrow> TermPtr" where
  "Unifier_apply u =
     (if \<not> u_exists u then Some BottomTerm
      else if u_mapping u = [] \<or> isGround (u_t0 u) \<or> termType (u_t1 u) = VARIABLE then Some (u_t0 u)
      else if isGround (u_t1 u) \<or> termType (u_t0 u) = VARIABLE then Some (u_t1 u)
      else if termType (u_t0 u) = PREDICATE then Some (Predicate_applySubstitution (u_t0 u) (u_mapping u))
      else Some BottomTerm)"

section \<open>Substitution (src/terms/Substitution.cpp)\<close>

text \<open>\<open>Substitution::set\<close> of Substitution.cpp: \<open>mapping_.insert(pair(var, term))\<close>.\<close>

definition Substitution_set :: "Mapping \<Rightarrow> string \<Rightarrow> TermPtr \<Rightarrow> Mapping" where
  "Substitution_set mapping var t = map_insert var t mapping"

text \<open>
  \<open>Substitution::computeHash\<close>, with \<open>size_t\<close> of 64 bits. The hash functions of
  a variable and of a term are defined outside the files at hand and are the
  parameters \<open>key_hash_of\<close> and \<open>value_hash_of\<close>. The loop runs over the entries in
  key order; a null term hashes to 0.
\<close>

definition GOLDEN_RATIO_HASH :: "64 word" where
  "GOLDEN_RATIO_HASH = 0x9e3779b9"

fun computeHash_loop ::
  "(string \<Rightarrow> 64 word) \<Rightarrow> (Term \<Rightarrow> 64 word) \<Rightarrow> Mapping \<Rightarrow> 64 word \<Rightarrow> 64 word" where
  "computeHash_loop key_hash_of value_hash_of [] seed = seed"
| "computeHash_loop key_hash_of value_hash_of ((var, t) # items) seed =
     (let key_hash = key_hash_of var;
          value_hash = (case t of None \<Rightarrow> 0 | Some t' \<Rightarrow> value_hash_of t');
          seed1 = seed XOR (key_hash + GOLDEN_RATIO_HASH + push_bit 6 seed + drop_bit 2 seed);
          seed2 = seed1 XOR (value_hash + GOLDEN_RATIO_HASH + push_bit 6 seed1 + drop_bit 2 seed1)
      in computeHash_loop key_hash_of value_hash_of items seed2)"

definition Substitution_computeHash ::
  "(string \<Rightarrow> 64 word) \<Rightarrow> (Term \<Rightarrow> 64 word) \<Rightarrow> Mapping \<Rightarrow> 64 word" where
  "Substitution_computeHash key_hash_of value_hash_of mapping =
     computeHash_loop key_hash_of value_hash_of mapping 0"

subsection \<open>The journal of undo operations\<close>

text \<open>
  An undo entry. In Substitution.cpp it is a closure pushed by \<open>unifyWith\<close>:
  \<open>[this,jt](){ mapping_.erase(jt); }\<close> is \<open>Added\<close> and
  \<open>[it,t0](){ it->second = t0; }\<close> is \<open>Replaced\<close>; in terms.cpp it is an object of
  the class \<open>Substitution::Added\<close> or \<open>Substitution::Replaced\<close>. The captured
  iterator is the key of its entry; running an undo whose entry is no longer in the
  map uses an invalid iterator.
\<close>

datatype Operation = Added string | Replaced string TermPtr

fun Operation_rollBack :: "Operation \<Rightarrow> Mapping \<Rightarrow> Error + Mapping" where
  "Operation_rollBack (Added var) mapping =
     (if map_find mapping var = None then Inl InvalidIterator else Inr (map_erase var mapping))"
| "Operation_rollBack (Replaced var replacedInstance) mapping =
     (if map_find mapping var = None then Inl InvalidIterator
      else Inr (map_assign var replacedInstance mapping))"

text \<open>
  The journal (\<open>Reversible\<close>, and \<open>Substitution::Diff\<close> in terms.cpp) is used through
  \<open>push\<close>, \<open>front\<close>, \<open>pop\<close> and \<open>empty\<close>, the interface of \<open>std::queue\<close>:
  \<open>push\<close> appends at the back, \<open>front\<close> is the oldest element and \<open>pop\<close>
  removes it. The queue is the list of its elements, oldest first.
\<close>

type_synonym 'a queue = "'a list"

definition queue_push :: "'a queue \<Rightarrow> 'a \<Rightarrow> 'a queue" where
  "queue_push q x = q @ [x]"

definition queue_front :: "'a queue \<Rightarrow> 'a" where
  "queue_front q = hd q"

definition queue_pop :: "'a queue \<Rightarrow> 'a queue" where
  "queue_pop q = tl q"

definition queue_empty :: "'a queue \<Rightarrow> bool" where
  "queue_empty q \<longleftrightarrow> q = []"

text \<open>
  \<open>Reversible::rollBack\<close>: while the journal is not empty, run \<open>front()\<close> and
  \<open>pop()\<close>. The result is the emptied journal and the map the undo closures leave.
  \<open>Substitution::rollBack(changes)\<close> of terms.cpp is the same loop.
\<close>

function Reversible_rollBack :: "Operation queue \<Rightarrow> Mapping \<Rightarrow> Error + (Operation queue \<times> Mapping)" where
  "Reversible_rollBack q mapping =
     (if queue_empty q then Inr (q, mapping)
      else (case Operation_rollBack (queue_front q) mapping of
              Inl e \<Rightarrow> Inl e
            | Inr mapping' \<Rightarrow> Reversible_rollBack (queue_pop q) mapping'))"
  by pat_completeness auto
termination
  by (relation "measure (\<lambda>(q, m). length q)") (auto simp: queue_empty_def queue_pop_def)

declare Reversible_rollBack.simps [simp del]

subsection \<open>Merging substitutions\<close>

text \<open>
  \<open>Substitution::unifyWith(other, reversible)\<close>. The class \<open>Unifier\<close> it uses comes
  from a header outside the files at hand, so the unifier is the parameter
  \<open>unifier\<close>: \<open>unifier t0 t1\<close> is \<open>Inr None\<close> when \<open>exists()\<close> is false and
  \<open>Inr (Some t)\<close> when it is true and \<open>apply()\<close> returns \<open>t\<close>. The journal pointer
  may be null (\<open>None\<close>). The loop runs over the entries of \<open>other\<close> in key order;
  the result is the returned bool with the map and the journal as the call leaves
  them.
\<close>

fun Substitution_unifyWith ::
  "(TermPtr \<Rightarrow> TermPtr \<Rightarrow> Error + TermPtr option) \<Rightarrow> Mapping \<Rightarrow> Mapping \<Rightarrow>
   Operation queue option \<Rightarrow> Error + (bool \<times> Mapping \<times> Operation queue option)" where
  "Substitution_unifyWith unifier mapping [] reversible = Inr (True, mapping, reversible)"
| "Substitution_unifyWith unifier mapping ((var, t1) # other) reversible =
     (case map_find mapping var of
        None \<Rightarrow>
          Substitution_unifyWith unifier (map_insert var t1 mapping) other
            (map_option (\<lambda>q. queue_push q (Added var)) reversible)
      | Some t0 \<Rightarrow>
          (case unifier t0 t1 of
             Inl e \<Rightarrow> Inl e
           | Inr None \<Rightarrow> Inr (False, mapping, reversible)
           | Inr (Some t) \<Rightarrow>
               Substitution_unifyWith unifier (map_assign var t mapping) other
                 (map_option (\<lambda>q. queue_push q (Replaced var t0)) reversible)))"

text \<open>
  The unifier of terms.cpp behind that interface: constructing it dereferences both
  pointers.
\<close>

definition lang_Unifier :: "TermPtr \<Rightarrow> TermPtr \<Rightarrow> Error + TermPtr option" where
  "lang_Unifier p0 p1 =
     (case (p0, p1) of
        (Some t0, Some t1) \<Rightarrow>
          (case Unifier_new t0 t1 of
             Inl e \<Rightarrow> Inl e
           | Inr sigma \<Rightarrow> Inr (if u_exists sigma then Some (Unifier_apply sigma) else None))
      | _ \<Rightarrow> Inl NullPointer)"

text \<open>\<open>Substitution::rollBack(changes)\<close> of terms.cpp, over its journal type
  \<open>Diff\<close>: the loop of \<open>Reversible::rollBack\<close>, with \<open>change->rollBack(*this)\<close>
  for the call of the closure.\<close>

definition Substitution_rollBack :: "Operation queue \<Rightarrow> Mapping \<Rightarrow> Error + (Operation queue \<times> Mapping)" where
  "Substitution_rollBack changes mapping = Reversible_rollBack changes mapping"

text \<open>The variable an undo entry refers to.\<close>

fun Operation_var :: "Operation \<Rightarrow> string" where
  "Operation_var (Added var) = var"
| "Operation_var (Replaced var _) = var"

section \<open>Reasoner manager (src/reasoner.cpp)\<close>

text \<open>
  The log written through \<open>KB_WARN\<close> and \<open>KB_INFO\<close>: an entry is the level, the
  format string and the arguments, in the order logged.
\<close>

datatype LogLevel = INFO | WARN

type_synonym LogEntry = "LogLevel \<times> string \<times> string list"

text \<open>
  A \<open>boost::property_tree::ptree\<close> with string data: the data of the node and its
  children in order. \<open>get_optional<std::string>(key)\<close>, for a key without a path
  separator, is the data of the first child of that name.
\<close>

datatype ptree = PTree (ptree_data: string) (ptree_children: "(string \<times> ptree) list")

definition get_child_optional :: "ptree \<Rightarrow> string \<Rightarrow> ptree option" where
  "get_child_optional t key = map_of (ptree_children t) key"

definition get_optional :: "ptree \<Rightarrow> string \<Rightarrow> string option" where
  "get_optional t key = map_option ptree_data (get_child_optional t key)"

definition ptree_empty :: "ptree \<Rightarrow> bool" where
  "ptree_empty t \<longleftrightarrow> ptree_children t = []"

record DataFile =
  path :: string
  format :: string

record ReasonerConfiguration =
  settings :: "(Term \<times> Term) list"
  dataFiles :: "DataFile list"

text \<open>
  \<open>ReasonerConfiguration::loadSettings(key1, ptree)\<close>, threading the settings list and
  the log. A child with an empty key stands for a list value and is skipped with a
  warning.
\<close>

fun loadSettings ::
  "Term \<Rightarrow> ptree \<Rightarrow> (Term \<times> Term) list \<times> LogEntry list \<Rightarrow> (Term \<times> Term) list \<times> LogEntry list"
  and loadSettings_children ::
  "Term \<Rightarrow> (string \<times> ptree) list \<Rightarrow> (Term \<times> Term) list \<times> LogEntry list \<Rightarrow>
   (Term \<times> Term) list \<times> LogEntry list"
where
  "loadSettings key1 (PTree d children) st = loadSettings_children key1 children st"
| "loadSettings_children key1 [] st = st"
| "loadSettings_children key1 ((key, sub) # rest) (acc, lg) =
     (if key = [] then
        loadSettings_children key1 rest
          (acc, lg @ [(WARN, ''todo: handle list values in options'', [])])
      else
        (let key2 = StringTerm key;
             key_t = Predicate (PredicateIndicator '':'' 2) [key1, key2]
         in if ptree_empty sub then
              loadSettings_children key1 rest
                (acc @ [(key_t, StringTerm (ptree_data sub))], lg)
            else loadSettings_children key1 rest (loadSettings key_t sub (acc, lg))))"

text \<open>The first loop of \<open>loadPropertyTree\<close>, over the children of the configuration.\<close>

fun loadPropertyTree_settings ::
  "(string \<times> ptree) list \<Rightarrow> (Term \<times> Term) list \<times> LogEntry list \<Rightarrow> (Term \<times> Term) list \<times> LogEntry list"
where
  "loadPropertyTree_settings [] st = st"
| "loadPropertyTree_settings ((key, sub) # rest) (acc, lg) =
     (let key_t = StringTerm key
      in if ptree_empty sub then
           loadPropertyTree_settings rest (acc @ [(key_t, StringTerm (ptree_data sub))], lg)
         else loadPropertyTree_settings rest (loadSettings key_t sub (acc, lg)))"

text \<open>The second loop of \<open>loadPropertyTree\<close>, over the children of \<open>data-sources\<close>.\<close>

fun loadPropertyTree_dataSources ::
  "(string \<times> ptree) list \<Rightarrow> DataFile list \<times> LogEntry list \<Rightarrow> DataFile list \<times> LogEntry list"
where
  "loadPropertyTree_dataSources [] st = st"
| "loadPropertyTree_dataSources ((key, subtree) # rest) (files, lg) =
     (case get_optional subtree ''file'' of
        Some fileValue \<Rightarrow>
          (let fileFormat = (case get_optional subtree ''format'' of Some f \<Rightarrow> f | None \<Rightarrow> [])
           in loadPropertyTree_dataSources rest
                (files @ [\<lparr>path = fileValue, format = fileFormat\<rparr>], lg))
      | None \<Rightarrow>
          loadPropertyTree_dataSources rest
            (files, lg @ [(WARN, ''Ignoring data source without \"file\" key.'', [])]))"

text \<open>\<open>ReasonerConfiguration::loadPropertyTree\<close> on a new configuration: the
  configuration and the log.\<close>

definition loadPropertyTree :: "ptree \<Rightarrow> LogEntry list \<Rightarrow> ReasonerConfiguration \<times> LogEntry list" where
  "loadPropertyTree config log0 =
     (let (settings1, log1) = loadPropertyTree_settings (ptree_children config) ([], log0);
          (dataFiles1, log2) =
            (case get_child_optional config ''data-sources'' of
               Some data_sources \<Rightarrow> loadPropertyTree_dataSources (ptree_children data_sources) ([], log1)
             | None \<Rightarrow> ([], log1))
      in (\<lparr>settings = settings1, dataFiles = dataFiles1\<rparr>, log2))"

text \<open>
  A reasoner instance, as far as the manager uses it: its id and the results of its
  virtual methods \<open>loadConfiguration\<close> and \<open>isCurrentPredicate\<close>.
\<close>

record IReasoner =
  reasonerID :: string
  loadConfiguration :: "ReasonerConfiguration \<Rightarrow> bool"
  isCurrentPredicate :: "PredicateIndicator \<Rightarrow> bool"

text \<open>A \<open>ReasonerFactory\<close>: \<open>name()\<close> and \<open>createReasoner(id)\<close>, which returns a
  shared pointer.\<close>

record ReasonerFactory =
  factory_name :: string
  createReasoner :: "string \<Rightarrow> IReasoner option"

text \<open>
  A \<open>ReasonerPlugin\<close>: the path and the two function pointers \<open>create_\<close> and
  \<open>get_name_\<close>, null until \<open>loadDLL\<close> resolves them; \<open>get_name\<close> holds the name the
  function returns. What \<open>dlopen\<close> and \<open>dlsym\<close> find at a path is the parameter
  \<open>dl\<close>: \<open>None\<close> when the library does not open, else the two symbols.
\<close>

record ReasonerPlugin =
  dllPath :: string
  create :: "(string \<Rightarrow> IReasoner option) option"
  get_name :: "string option"

type_synonym DynamicLoader =
  "string \<Rightarrow> ((string \<Rightarrow> IReasoner option) option \<times> string option) option"

definition ReasonerPlugin_new :: "string \<Rightarrow> ReasonerPlugin" where
  "ReasonerPlugin_new p = \<lparr>dllPath = p, create = None, get_name = None\<rparr>"

definition isLoaded :: "ReasonerPlugin \<Rightarrow> bool" where
  "isLoaded p \<longleftrightarrow> create p \<noteq> None \<and> get_name p \<noteq> None"

text \<open>\<open>ReasonerPlugin::loadDLL\<close>: the returned bool and the plugin after the call.\<close>

definition loadDLL :: "DynamicLoader \<Rightarrow> ReasonerPlugin \<Rightarrow> bool \<times> ReasonerPlugin" where
  "loadDLL dl p =
     (case dl (dllPath p) of
        Some (c, n) \<Rightarrow> (let p' = p\<lparr>create := c, get_name := n\<rparr> in (isLoaded p', p'))
      | None \<Rightarrow> (False, p))"

text \<open>A plugin used as a \<open>ReasonerFactory\<close>; the manager does so only when the plugin
  is loaded.\<close>

definition plugin_factory :: "ReasonerPlugin \<Rightarrow> ReasonerFactory option" where
  "plugin_factory p =
     (case (create p, get_name p) of
        (Some c, Some n) \<Rightarrow> Some \<lparr>factory_name = n, createReasoner = c\<rparr>
      | _ \<Rightarrow> None)"

text \<open>The members of \<open>ReasonerManager\<close>, with the log; \<open>reasonerIndex_\<close> is an unsigned
  32-bit counter.\<close>

record ReasonerManager =
  reasonerFactories :: "string \<rightharpoonup> ReasonerFactory"
  loadedPlugins :: "string \<rightharpoonup> ReasonerPlugin"
  reasonerPool :: "IReasoner list"
  reasonerIndex :: "32 word"
  log :: "LogEntry list"

definition KB_WARN :: "string \<Rightarrow> string list \<Rightarrow> ReasonerManager \<Rightarrow> ReasonerManager" where
  "KB_WARN fmt args s = s\<lparr>log := log s @ [(WARN, fmt, args)]\<rparr>"

definition KB_INFO :: "string \<Rightarrow> string list \<Rightarrow> ReasonerManager \<Rightarrow> ReasonerManager" where
  "KB_INFO fmt args s = s\<lparr>log := log s @ [(INFO, fmt, args)]\<rparr>"

definition addReasoner :: "IReasoner \<Rightarrow> ReasonerManager \<Rightarrow> ReasonerManager" where
  "addReasoner reasoner s = s\<lparr>reasonerPool := reasonerPool s @ [reasoner]\<rparr>"

definition addReasonerFactory :: "string \<Rightarrow> ReasonerFactory \<Rightarrow> ReasonerManager \<Rightarrow> ReasonerManager" where
  "addReasonerFactory typeName factory s = s\<lparr>reasonerFactories := (reasonerFactories s)(typeName \<mapsto> factory)\<rparr>"

text \<open>\<open>ReasonerManager::loadReasonerPlugin\<close>: the factory, null on failure, and the
  manager after the call.\<close>

definition loadReasonerPlugin ::
  "DynamicLoader \<Rightarrow> string \<Rightarrow> ReasonerManager \<Rightarrow> ReasonerFactory option \<times> ReasonerManager" where
  "loadReasonerPlugin dl p s =
     (case loadedPlugins s p of
        None \<Rightarrow>
          (let (ok, plugin) = loadDLL dl (ReasonerPlugin_new p);
               s1 = s\<lparr>loadedPlugins := (loadedPlugins s)(p \<mapsto> plugin)\<rparr>
           in if ok then (plugin_factory plugin, s1)
              else (None, KB_WARN ''Failed to open reasoner library at path '{}'.'' [p] s1))
      | Some plugin \<Rightarrow>
          if isLoaded plugin then (plugin_factory plugin, s)
          else (None, KB_WARN ''Failed to open reasoner library at path '{}'.'' [p] s))"

text \<open>\<open>std::to_string\<close> of an unsigned number: its decimal digits.\<close>

function to_string :: "nat \<Rightarrow> string" where
  "to_string n =
     (if n < 10 then [''0123456789'' ! n]
      else to_string (n div 10) @ [''0123456789'' ! (n mod 10)])"
  by pat_completeness auto
termination
  by (relation "measure id") auto

declare to_string.simps [simp del]

text \<open>
  \<open>ReasonerManager::loadReasoner\<close>, in the three parts of the source. The first part
  finds the factory: the key \<open>lib\<close> is preferred over \<open>type\<close>.
\<close>

definition loadReasoner_factory ::
  "DynamicLoader \<Rightarrow> ptree \<Rightarrow> ReasonerManager \<Rightarrow> ReasonerFactory option \<times> ReasonerManager" where
  "loadReasoner_factory dl config s =
     (case get_optional config ''lib'' of
        Some lib \<Rightarrow> loadReasonerPlugin dl lib s
      | None \<Rightarrow>
          (case get_optional config ''type'' of
             Some type \<Rightarrow>
               (case reasonerFactories s type of
                  None \<Rightarrow> (None, KB_WARN ''no factory registered for reasoner type '{}'.'' [type] s)
                | Some factory \<Rightarrow> (Some factory, s))
           | None \<Rightarrow> (None, KB_WARN ''missing 'type' or 'lib' key in reasoner config.'' [] s)))"

text \<open>The second part makes the reasoner id: the key \<open>name\<close>, or the name of the
  factory followed by the index.\<close>

definition loadReasoner_id :: "ptree \<Rightarrow> ReasonerFactory \<Rightarrow> ReasonerManager \<Rightarrow> string" where
  "loadReasoner_id config factory s =
     (case get_optional config ''name'' of
        Some name \<Rightarrow> name
      | None \<Rightarrow> factory_name factory @ to_string (unat (reasonerIndex s)))"

text \<open>
  The whole function. The result is the exception thrown, if any, and the manager
  after the call. A null pointer from the factory is dereferenced by the call of
  \<open>loadConfiguration\<close>.
\<close>

definition loadReasoner ::
  "DynamicLoader \<Rightarrow> ptree \<Rightarrow> ReasonerManager \<Rightarrow> Error option \<times> ReasonerManager" where
  "loadReasoner dl config s =
     (let (factory_opt, s1) = loadReasoner_factory dl config s
      in case factory_opt of
           None \<Rightarrow> (Some (ReasonerError ''failed to load a reasoner.''), s1)
         | Some factory \<Rightarrow>
             (let rid = loadReasoner_id config factory s1;
                  s2 = KB_INFO ''Using reasoner `{}` with type `{}`.'' [rid, factory_name factory] s1;
                  reasoner_opt = createReasoner factory rid;
                  (reasonerConfig, log3) = loadPropertyTree config (log s2);
                  s3 = s2\<lparr>log := log3\<rparr>
              in case reasoner_opt of
                   None \<Rightarrow> (Some NullPointer, s3)
                 | Some reasoner \<Rightarrow>
                     (let s4 = (if \<not> loadConfiguration reasoner reasonerConfig
                                then KB_WARN ''Reasoner `{}` failed to loadConfiguration.'' [rid] s3
                                else addReasoner reasoner s3)
                      in (None, s4\<lparr>reasonerIndex := reasonerIndex s4 + 1\<rparr>))))"

text \<open>\<open>ReasonerManager::getReasonerForPredicate\<close>.\<close>

definition getReasonerForPredicate :: "ReasonerManager \<Rightarrow> PredicateIndicator \<Rightarrow> IReasoner list" where
  "getReasonerForPredicate s predicate = filter (\<lambda>x. isCurrentPredicate x predicate) (reasonerPool s)"

section \<open>Formulas and modal operators\<close>

text \<open>
  A time interval with optional begin and end, and the modal operators with their
  parameters, as the factory functions \<open>KnowledgeModality::K\<close>, \<open>BeliefModality::B\<close>,
  \<open>PastModality::P\<close> and \<open>PastModality::H\<close> receive them; a parameter that is not
  passed is \<open>None\<close>.
\<close>

datatype TimeInterval = TimeInterval (since: "double option") (until: "double option")

datatype ModalOperator =
    KnowledgeModality_K "string option"
  | BeliefModality_B "string option" "double option"
  | PastModality_P "TimeInterval option"
  | PastModality_H "TimeInterval option"

datatype Formula =
    PredicateFormula Term
  | Negation Formula
  | Conjunction "Formula list"
  | Disjunction "Formula list"
  | Implication Formula Formula
  | ModalFormula ModalOperator Formula

text \<open>
  Modelled from the spec: the operators \<open>&\<close>, \<open>|\<close> and \<open>~\<close> on formulas, which are
  defined outside the files at hand. They "construct Connective/Negation and flatten
  associatively when the operand is already of the same kind".
\<close>

definition Formula_and :: "Formula \<Rightarrow> Formula \<Rightarrow> Formula" where
  "Formula_and phi psi =
     (case phi of
        Conjunction xs \<Rightarrow>
          (case psi of Conjunction ys \<Rightarrow> Conjunction (xs @ ys) | _ \<Rightarrow> Conjunction (xs @ [psi]))
      | _ \<Rightarrow>
          (case psi of Conjunction ys \<Rightarrow> Conjunction (phi # ys) | _ \<Rightarrow> Conjunction [phi, psi]))"

definition Formula_or :: "Formula \<Rightarrow> Formula \<Rightarrow> Formula" where
  "Formula_or phi psi =
     (case phi of
        Disjunction xs \<Rightarrow>
          (case psi of Disjunction ys \<Rightarrow> Disjunction (xs @ ys) | _ \<Rightarrow> Disjunction (xs @ [psi]))
      | _ \<Rightarrow>
          (case psi of Disjunction ys \<Rightarrow> Disjunction (phi # ys) | _ \<Rightarrow> Disjunction [phi, psi]))"

definition Formula_not :: "Formula \<Rightarrow> Formula" where
  "Formula_not phi = Negation phi"

section \<open>Options of modal operators (src/queries/QueryParser.cpp)\<close>

definition reportUnrecognized :: "Term \<Rightarrow> Error + 'a" where
  "reportUnrecognized option = Inl (QueryError_UnrecognizedOption option)"

text \<open>The value of a \<open>StringTerm\<close> and of a \<open>DoubleTerm\<close>, read after the test of the
  term type.\<close>

fun StringTerm_value :: "Term \<Rightarrow> string" where
  "StringTerm_value (StringTerm s) = s"
| "StringTerm_value _ = []"

fun DoubleTerm_value :: "Term \<Rightarrow> double" where
  "DoubleTerm_value (DoubleTerm d) = d"
| "DoubleTerm_value _ = NaN"

text \<open>The arity in the indicator of a predicate, and \<open>arguments()[i]\<close>, which reads
  past the end of the vector when \<open>i\<close> is not below its size.\<close>

fun Predicate_arity :: "Term \<Rightarrow> 32 word" where
  "Predicate_arity (Predicate ind arguments) = indicator_arity ind"
| "Predicate_arity _ = 0"

fun Predicate_argument :: "Term \<Rightarrow> nat \<Rightarrow> Error + Term" where
  "Predicate_argument (Predicate ind arguments) i =
     (if i < length arguments then Inr (arguments ! i) else Inl OutOfRange)"
| "Predicate_argument _ i = Inl BadCast"

text \<open>
  The three functions below loop over the options of a list term. The loop is
  \<open>for_each_option\<close> over the body of the loop: the body takes the option and the
  local variables and gives the variables after a \<open>continue\<close>, or the exception of
  \<open>reportUnrecognized\<close> when the option reaches the end of the body.
\<close>

fun for_each_option :: "(Term \<Rightarrow> 's \<Rightarrow> Error + 's) \<Rightarrow> Term list \<Rightarrow> 's \<Rightarrow> Error + 's" where
  "for_each_option body [] vars = Inr vars"
| "for_each_option body (option # rest) vars =
     (case body option vars of Inl e \<Rightarrow> Inl e | Inr vars' \<Rightarrow> for_each_option body rest vars')"

text \<open>The body of the loop of \<open>createK\<close>, with the variable \<open>agentName\<close>.\<close>

definition createK_body :: "Term \<Rightarrow> string option \<Rightarrow> Error + string option" where
  "createK_body option agentName =
     (if agentName = None \<and> termType option = STRING then
        Inr (Some (StringTerm_value option))
      else if termType option = PREDICATE \<and> Predicate_arity option = 2 then
        (case (Predicate_argument option 0, Predicate_argument option 1) of
           (Inr key, Inr val) \<Rightarrow>
             if agentName = None \<and> termType val = STRING \<and>
                (key = StringTerm ''agent'' \<or> key = StringTerm ''a'')
             then Inr (Some (StringTerm_value val))
             else reportUnrecognized option
         | _ \<Rightarrow> Inl OutOfRange)
      else reportUnrecognized option)"

text \<open>\<open>createK\<close>. The options term is null, the list \<open>nil\<close> (the empty list) or a
  list; the agent \<open>self\<close> is no agent.\<close>

definition createK :: "TermPtr \<Rightarrow> Error + ModalOperator" where
  "createK optionsTerm =
     (case optionsTerm of
        None \<Rightarrow> Inr (KnowledgeModality_K None)
      | Some (ListTerm []) \<Rightarrow> Inr (KnowledgeModality_K None)
      | Some (ListTerm options) \<Rightarrow>
          (case for_each_option createK_body options None of
             Inl e \<Rightarrow> Inl e
           | Inr agentName \<Rightarrow>
               if agentName \<noteq> None \<and> agentName \<noteq> Some ''self''
               then Inr (KnowledgeModality_K agentName)
               else Inr (KnowledgeModality_K None))
      | Some _ \<Rightarrow> Inl BadCast)"

text \<open>The body of the loop of \<open>createB\<close>, with the variables \<open>agentName\<close> and
  \<open>confidenceValue\<close>.\<close>

definition createB_body ::
  "Term \<Rightarrow> string option \<times> double option \<Rightarrow> Error + (string option \<times> double option)" where
  "createB_body option vars =
     (let agentName = fst vars; confidenceValue = snd vars
      in if agentName = None \<and> termType option = STRING then
           Inr (Some (StringTerm_value option), confidenceValue)
         else if confidenceValue = None \<and> termType option = DOUBLE then
           Inr (agentName, Some (DoubleTerm_value option))
         else if termType option = PREDICATE \<and> Predicate_arity option = 2 then
           (case (Predicate_argument option 0, Predicate_argument option 1) of
              (Inr key, Inr val) \<Rightarrow>
                if agentName = None \<and> termType val = STRING \<and>
                   (key = StringTerm ''agent'' \<or> key = StringTerm ''a'')
                then Inr (Some (StringTerm_value val), confidenceValue)
                else if confidenceValue = None \<and> termType val = DOUBLE \<and>
                   (key = StringTerm ''confidence'' \<or> key = StringTerm ''c'')
                then Inr (agentName, Some (DoubleTerm_value val))
                else reportUnrecognized option
            | _ \<Rightarrow> Inl OutOfRange)
         else reportUnrecognized option)"

definition createB :: "TermPtr \<Rightarrow> Error + ModalOperator" where
  "createB optionsTerm =
     (case optionsTerm of
        None \<Rightarrow> Inr (BeliefModality_B None None)
      | Some (ListTerm []) \<Rightarrow> Inr (BeliefModality_B None None)
      | Some (ListTerm options) \<Rightarrow>
          (case for_each_option createB_body options (None, None) of
             Inl e \<Rightarrow> Inl e
           | Inr (agentName, confidenceValue) \<Rightarrow>
               Inr (BeliefModality_B (if agentName = Some ''self'' then None else agentName)
                      confidenceValue))
      | Some _ \<Rightarrow> Inl BadCast)"

text \<open>The body of the loop of \<open>readTimeInterval\<close>, with the variables \<open>beginTime\<close>
  and \<open>endTime\<close>.\<close>

definition readTimeInterval_body ::
  "Term \<Rightarrow> double option \<times> double option \<Rightarrow> Error + (double option \<times> double option)" where
  "readTimeInterval_body option vars =
     (let beginTime = fst vars; endTime = snd vars
      in if termType option = DOUBLE then
           (if beginTime = None then Inr (Some (DoubleTerm_value option), endTime)
            else if endTime = None then Inr (beginTime, Some (DoubleTerm_value option))
            else reportUnrecognized option)
         else if termType option = PREDICATE \<and> Predicate_arity option = 2 then
           (case (Predicate_argument option 0, Predicate_argument option 1) of
              (Inr key, Inr val) \<Rightarrow>
                if beginTime = None \<and> termType val = DOUBLE \<and>
                   (key = StringTerm ''begin'' \<or> key = StringTerm ''since'')
                then Inr (Some (DoubleTerm_value val), endTime)
                else if endTime = None \<and> termType val = DOUBLE \<and>
                   (key = StringTerm ''end'' \<or> key = StringTerm ''until'')
                then Inr (beginTime, Some (DoubleTerm_value val))
                else reportUnrecognized option
            | _ \<Rightarrow> Inl OutOfRange)
         else reportUnrecognized option)"

definition readTimeInterval :: "Term list \<Rightarrow> Error + TimeInterval option" where
  "readTimeInterval options =
     (case for_each_option readTimeInterval_body options (None, None) of
        Inl e \<Rightarrow> Inl e
      | Inr (beginTime, endTime) \<Rightarrow>
          if beginTime \<noteq> None \<or> endTime \<noteq> None
          then Inr (Some (TimeInterval beginTime endTime))
          else Inr None)"

definition createP :: "TermPtr \<Rightarrow> Error + ModalOperator" where
  "createP optionsTerm =
     (case optionsTerm of
        None \<Rightarrow> Inr (PastModality_P None)
      | Some (ListTerm []) \<Rightarrow> Inr (PastModality_P None)
      | Some (ListTerm options) \<Rightarrow>
          (case readTimeInterval options of
             Inl e \<Rightarrow> Inl e
           | Inr timeInterval \<Rightarrow> Inr (PastModality_P timeInterval))
      | Some _ \<Rightarrow> Inl BadCast)"

definition createH :: "TermPtr \<Rightarrow> Error + ModalOperator" where
  "createH optionsTerm =
     (case optionsTerm of
        None \<Rightarrow> Inr (PastModality_H None)
      | Some (ListTerm []) \<Rightarrow> Inr (PastModality_H None)
      | Some (ListTerm options) \<Rightarrow>
          (case readTimeInterval options of
             Inl e \<Rightarrow> Inl e
           | Inr timeInterval \<Rightarrow> Inr (PastModality_H timeInterval))
      | Some _ \<Rightarrow> Inl BadCast)"

section \<open>The query parser (src/queries/QueryParser.cpp)\<close>

subsection \<open>Parsers\<close>

text \<open>
  The grammar is written with Boost.Spirit Qi. A parser takes the input from the
  current position to the end and gives \<open>Inr None\<close> when it does not match,
  \<open>Inr (Some (a, rest))\<close> when it matches with the attribute \<open>a\<close> and the input
  \<open>rest\<close> left, and \<open>Inl e\<close> when a semantic action throws. An alternative tries its
  second parser at the same position when the first does not match; an exception
  passes through every parser above it.
\<close>

type_synonym 'a parser = "string \<Rightarrow> Error + ('a \<times> string) option"

definition preturn :: "'a \<Rightarrow> 'a parser" where
  "preturn a s = Inr (Some (a, s))"

definition pthrow :: "Error \<Rightarrow> 'a parser" where
  "pthrow e s = Inl e"

definition pbind :: "'a parser \<Rightarrow> ('a \<Rightarrow> 'b parser) \<Rightarrow> 'b parser" where
  "pbind p f s = (case p s of Inl e \<Rightarrow> Inl e | Inr None \<Rightarrow> Inr None | Inr (Some (a, r)) \<Rightarrow> f a r)"

definition palt :: "'a parser \<Rightarrow> 'a parser \<Rightarrow> 'a parser" where
  "palt p q s = (case p s of Inl e \<Rightarrow> Inl e | Inr None \<Rightarrow> q s | Inr (Some x) \<Rightarrow> Inr (Some x))"

text \<open>\<open>qi::char_(c)\<close> and a character literal: the next character is \<open>c\<close>.\<close>

definition qi_char :: "char \<Rightarrow> char parser" where
  "qi_char c s = (case s of [] \<Rightarrow> Inr None | x # r \<Rightarrow> if x = c then Inr (Some (c, r)) else Inr None)"

text \<open>A string literal such as \<open>"->"\<close>.\<close>

definition lit :: "string \<Rightarrow> unit parser" where
  "lit w s = (if take (length w) s = w then Inr (Some ((), drop (length w) s)) else Inr None)"

text \<open>
  The skipper \<open>ascii::space\<close>. In a rule with a skipper every character and string
  literal skips white space first, and so does the call of a rule that has no
  skipper; inside a rule without a skipper nothing is skipped.
\<close>

definition is_space :: "char \<Rightarrow> bool" where
  "is_space c \<longleftrightarrow> c \<in> set [CHR '' '', CHR 0x09, CHR 0x0A, CHR 0x0B, CHR 0x0C, CHR 0x0D]"

definition skip :: "'a parser \<Rightarrow> 'a parser" where
  "skip p s = p (dropWhile is_space s)"

text \<open>
  The Kleene star of a parser. Each round that matches consumes input in this
  grammar, so the length of the input bounds the rounds; a parser that matched
  without consuming would run forever in Qi, and runs out of fuel here.
\<close>

fun many_fuel :: "nat \<Rightarrow> 'a parser \<Rightarrow> 'a list parser" where
  "many_fuel 0 p s = Inl OutOfFuel"
| "many_fuel (Suc n) p s =
     (case p s of
        Inl e \<Rightarrow> Inl e
      | Inr None \<Rightarrow> Inr (Some ([], s))
      | Inr (Some (a, r)) \<Rightarrow>
          (case many_fuel n p r of
             Inl e \<Rightarrow> Inl e
           | Inr None \<Rightarrow> Inr None
           | Inr (Some (as, r')) \<Rightarrow> Inr (Some (a # as, r'))))"

definition many :: "'a parser \<Rightarrow> 'a list parser" where
  "many p s = many_fuel (Suc (length s)) p s"

text \<open>The list operator \<open>p % sep\<close>: one \<open>p\<close>, then any number of \<open>sep\<close> followed by
  \<open>p\<close>.\<close>

definition plist :: "'a parser \<Rightarrow> 'b parser \<Rightarrow> 'a list parser" where
  "plist p sep = pbind p (\<lambda>a. pbind (many (pbind sep (\<lambda>_. p))) (\<lambda>as. preturn (a # as)))"

subsection \<open>Lexemes\<close>

definition is_lower :: "char \<Rightarrow> bool" where
  "is_lower c \<longleftrightarrow> c \<in> set ''abcdefghijklmnopqrstuvwxyz''"

definition is_upper :: "char \<Rightarrow> bool" where
  "is_upper c \<longleftrightarrow> c \<in> set ''ABCDEFGHIJKLMNOPQRSTUVWXYZ''"

definition is_digit :: "char \<Rightarrow> bool" where
  "is_digit c \<longleftrightarrow> c \<in> set ''0123456789''"

definition is_alpha :: "char \<Rightarrow> bool" where
  "is_alpha c \<longleftrightarrow> is_lower c \<or> is_upper c"

definition is_alnum :: "char \<Rightarrow> bool" where
  "is_alnum c \<longleftrightarrow> is_alpha c \<or> is_digit c"

text \<open>\<open>qi::raw[first >> *(ascii::alnum | '_')]\<close>: a character of the class \<open>first\<close>,
  then the longest run of alphanumeric characters and underscores.\<close>

definition word_char :: "char \<Rightarrow> bool" where
  "word_char c \<longleftrightarrow> is_alnum c \<or> c = CHR ''_''"

definition raw_word :: "(char \<Rightarrow> bool) \<Rightarrow> string parser" where
  "raw_word first s =
     (case s of
        [] \<Rightarrow> Inr None
      | c # r \<Rightarrow>
          if first c then Inr (Some (c # takeWhile word_char r, dropWhile word_char r))
          else Inr None)"

text \<open>\<open>qi::lexeme[q >> +(qi::char_ - q) >> q]\<close> for a quote character \<open>q\<close>: at least
  one character other than the quote, between two quotes.\<close>

definition quoted :: "char \<Rightarrow> string parser" where
  "quoted q s =
     (case s of
        [] \<Rightarrow> Inr None
      | c # r \<Rightarrow>
          if c = q \<and> takeWhile (\<lambda>x. x \<noteq> q) r \<noteq> [] \<and> dropWhile (\<lambda>x. x \<noteq> q) r \<noteq> []
          then Inr (Some (takeWhile (\<lambda>x. x \<noteq> q) r, tl (dropWhile (\<lambda>x. x \<noteq> q) r)))
          else Inr None)"

definition singleQuotes :: "string parser" where
  "singleQuotes = quoted (CHR 0x27)"

definition doubleQuotes :: "string parser" where
  "doubleQuotes = quoted (CHR 0x22)"

definition lowerPrefix :: "string parser" where
  "lowerPrefix = raw_word is_lower"

definition upperPrefix :: "string parser" where
  "upperPrefix = raw_word is_upper"

definition iri_ns :: "string parser" where
  "iri_ns = raw_word is_alpha"

definition iri_entity :: "string parser" where
  "iri_entity = palt singleQuotes (raw_word is_alpha)"

text \<open>
  \<open>createIRI\<close>. The prefix registry is outside the files at hand: \<open>registry prefix
  name\<close> is the result of \<open>PrefixRegistry::get().createIRI(prefix, name)\<close>.
\<close>

type_synonym PrefixRegistry = "string \<Rightarrow> string \<Rightarrow> string option"

definition createIRI :: "PrefixRegistry \<Rightarrow> string \<Rightarrow> string \<Rightarrow> Error + string" where
  "createIRI registry prefix name =
     (case registry prefix name of
        Some uri \<Rightarrow> Inr uri
      | None \<Rightarrow> Inl (QueryError_IRI name prefix))"

definition iri :: "PrefixRegistry \<Rightarrow> string parser" where
  "iri registry =
     pbind iri_ns (\<lambda>ns. pbind (qi_char (CHR '':'')) (\<lambda>_. pbind iri_entity (\<lambda>entity.
       case createIRI registry ns entity of Inl e \<Rightarrow> pthrow e | Inr uri \<Rightarrow> preturn uri)))"

definition atomRaw :: "PrefixRegistry \<Rightarrow> string parser" where
  "atomRaw registry = palt singleQuotes (palt (iri registry) lowerPrefix)"

definition atom :: "PrefixRegistry \<Rightarrow> Term parser" where
  "atom registry = pbind (atomRaw registry) (\<lambda>s. preturn (StringTerm s))"

definition string_rule :: "Term parser" where
  "string_rule = pbind doubleQuotes (\<lambda>s. preturn (StringTerm s))"

text \<open>
  Modelled from the spec: \<open>qi::double_\<close> is the real number parser of Boost, "a
  standard float grammar including sign and fraction": an optional sign, digits with
  an optional fraction, or a fraction alone, and an optional exponent, which is read
  only when digits follow it. The value is the exact decimal; \<open>nan\<close> and \<open>inf\<close> are
  not read.
\<close>

definition digits_value :: "string \<Rightarrow> nat" where
  "digits_value ds = foldl (\<lambda>n c. 10 * n + (of_char c - 48)) 0 ds"

definition sign_of :: "string \<Rightarrow> bool \<times> string" where
  "sign_of s =
     (case s of
        c # r \<Rightarrow> if c = CHR ''-'' then (True, r) else if c = CHR ''+'' then (False, r) else (False, s)
      | [] \<Rightarrow> (False, s))"

definition exponent_of :: "string \<Rightarrow> int \<times> string" where
  "exponent_of s =
     (case s of
        c # r \<Rightarrow>
          if c = CHR ''e'' \<or> c = CHR ''E'' then
            (let (neg, r1) = sign_of r; ds = takeWhile is_digit r1
             in if ds = [] then (0, s)
                else ((if neg then - int (digits_value ds) else int (digits_value ds)),
                      dropWhile is_digit r1))
          else (0, s)
      | [] \<Rightarrow> (0, s))"

definition scale10 :: "rat \<Rightarrow> int \<Rightarrow> rat" where
  "scale10 x e = (if e < 0 then x / 10 ^ nat (- e) else x * 10 ^ nat e)"

definition qi_double :: "double parser" where
  "qi_double s =
     (let (neg, s1) = sign_of s;
          ip = takeWhile is_digit s1; s2 = dropWhile is_digit s1;
          has_dot = (s2 \<noteq> [] \<and> hd s2 = CHR ''.'');
          fp = (if has_dot then takeWhile is_digit (tl s2) else []);
          s3 = (if has_dot then dropWhile is_digit (tl s2) else s2)
      in if ip = [] \<and> fp = [] then Inr None
         else
           (let (e, s4) = exponent_of s3;
                m = of_nat (digits_value (ip @ fp)) / 10 ^ length fp;
                v = scale10 m e
            in Inr (Some (Finite (if neg then - v else v), s4))))"

definition number :: "Term parser" where
  "number = pbind qi_double (\<lambda>d. preturn (DoubleTerm d))"

subsection \<open>Option lists and arguments\<close>

definition constant_rule :: "PrefixRegistry \<Rightarrow> Term parser" where
  "constant_rule registry = palt (atom registry) (palt string_rule number)"

text \<open>\<open>keyvalue\<close>: the predicate \<open>=(key, value)\<close> made by \<open>createTermVector2\<close>.\<close>

definition keyvalue :: "PrefixRegistry \<Rightarrow> Term parser" where
  "keyvalue registry =
     pbind (atom registry) (\<lambda>a. pbind (qi_char (CHR ''='')) (\<lambda>_. pbind (constant_rule registry) (\<lambda>b.
       preturn (Predicate_new ''='' [a, b]))))"

definition option :: "PrefixRegistry \<Rightarrow> Term parser" where
  "option registry = palt (keyvalue registry) (constant_rule registry)"

definition options :: "PrefixRegistry \<Rightarrow> Term parser" where
  "options registry =
     pbind (qi_char (CHR ''['')) (\<lambda>_. pbind (plist (option registry) (qi_char (CHR '',''))) (\<lambda>xs.
       pbind (qi_char (CHR '']'')) (\<lambda>_. preturn (ListTerm xs))))"

text \<open>\<open>nil\<close> is \<open>qi::attr(ListTerm::nil())\<close>: it matches the empty input and gives the
  empty list.\<close>

definition nil :: "Term parser" where
  "nil = preturn (ListTerm [])"

definition constantList :: "PrefixRegistry \<Rightarrow> Term parser" where
  "constantList registry =
     pbind (qi_char (CHR ''['')) (\<lambda>_. pbind (plist (constant_rule registry) (qi_char (CHR '',''))) (\<lambda>xs.
       pbind (qi_char (CHR '']'')) (\<lambda>_. preturn (ListTerm xs))))"

definition variable :: "Term parser" where
  "variable = pbind upperPrefix (\<lambda>name. preturn (Variable name))"

text \<open>
  The rules \<open>compound\<close> and \<open>argument\<close> call each other. The recursion of the rules
  is bounded by fuel: every call of a recursive rule takes one unit, and a rule
  called without fuel gives \<open>OutOfFuel\<close>.
\<close>

fun compound :: "nat \<Rightarrow> PrefixRegistry \<Rightarrow> Term parser"
  and argument :: "nat \<Rightarrow> PrefixRegistry \<Rightarrow> Term parser"
where
  "compound 0 registry = pthrow OutOfFuel"
| "compound (Suc n) registry =
     pbind (atomRaw registry) (\<lambda>f. pbind (qi_char (CHR ''('')) (\<lambda>_.
       pbind (plist (argument n registry) (qi_char (CHR '',''))) (\<lambda>arguments.
         pbind (qi_char (CHR '')'')) (\<lambda>_. preturn (Predicate_new f arguments)))))"
| "argument 0 registry = pthrow OutOfFuel"
| "argument (Suc n) registry =
     palt (compound n registry)
       (palt variable (palt (constant_rule registry) (constantList registry)))"

subsection \<open>Predicates and formulas\<close>

text \<open>The rules from here on have the skipper \<open>ascii::space\<close>.\<close>

definition predicateWithArgs :: "nat \<Rightarrow> PrefixRegistry \<Rightarrow> Term parser" where
  "predicateWithArgs n registry =
     pbind (skip (atomRaw registry)) (\<lambda>f. pbind (skip (qi_char (CHR ''(''))) (\<lambda>_.
       pbind (plist (skip (argument n registry)) (skip (qi_char (CHR '','')))) (\<lambda>arguments.
         pbind (skip (qi_char (CHR '')''))) (\<lambda>_. preturn (Predicate_new f arguments)))))"

definition predicateNullary :: "PrefixRegistry \<Rightarrow> Term parser" where
  "predicateNullary registry = pbind (skip (atomRaw registry)) (\<lambda>f. preturn (Predicate_new f []))"

definition predicate :: "nat \<Rightarrow> PrefixRegistry \<Rightarrow> Term parser" where
  "predicate n registry = palt (predicateWithArgs n registry) (predicateNullary registry)"

text \<open>
  A modal formula: the operator letter, the options or \<open>nil\<close>, and the operand; the
  semantic action then makes the operator from the options with one of
  \<open>createB\<close>, \<open>createK\<close>, \<open>createP\<close>, \<open>createH\<close>, which may throw.
\<close>

definition modal ::
  "char \<Rightarrow> (TermPtr \<Rightarrow> Error + ModalOperator) \<Rightarrow> PrefixRegistry \<Rightarrow> Formula parser \<Rightarrow> Formula parser" where
  "modal letter createOperator registry operand =
     pbind (skip (qi_char letter)) (\<lambda>_. pbind (palt (skip (options registry)) nil) (\<lambda>opts.
       pbind operand (\<lambda>phi.
         case createOperator (Some opts) of
           Inl e \<Rightarrow> pthrow e
         | Inr modalOperator \<Rightarrow> preturn (ModalFormula modalOperator phi))))"

fun formula :: "nat \<Rightarrow> PrefixRegistry \<Rightarrow> Formula parser"
  and implication :: "nat \<Rightarrow> PrefixRegistry \<Rightarrow> Formula parser"
  and disjunction :: "nat \<Rightarrow> PrefixRegistry \<Rightarrow> Formula parser"
  and conjunction :: "nat \<Rightarrow> PrefixRegistry \<Rightarrow> Formula parser"
  and brackets :: "nat \<Rightarrow> PrefixRegistry \<Rightarrow> Formula parser"
  and unary :: "nat \<Rightarrow> PrefixRegistry \<Rightarrow> Formula parser"
  and negation :: "nat \<Rightarrow> PrefixRegistry \<Rightarrow> Formula parser"
  and modalFormula :: "nat \<Rightarrow> PrefixRegistry \<Rightarrow> Formula parser"
  and belief :: "nat \<Rightarrow> PrefixRegistry \<Rightarrow> Formula parser"
  and knowledge :: "nat \<Rightarrow> PrefixRegistry \<Rightarrow> Formula parser"
  and oncePast :: "nat \<Rightarrow> PrefixRegistry \<Rightarrow> Formula parser"
  and alwaysPast :: "nat \<Rightarrow> PrefixRegistry \<Rightarrow> Formula parser"
where
  "formula 0 registry = pthrow OutOfFuel"
| "formula (Suc n) registry = palt (implication n registry) (brackets n registry)"
| "implication 0 registry = pthrow OutOfFuel"
| "implication (Suc n) registry =
     palt
       (pbind (palt (disjunction n registry) (brackets n registry)) (\<lambda>phi.
          pbind (skip (lit ''->'')) (\<lambda>_.
            pbind (palt (implication n registry) (brackets n registry)) (\<lambda>psi.
              preturn (Implication phi psi)))))
       (disjunction n registry)"
| "disjunction 0 registry = pthrow OutOfFuel"
| "disjunction (Suc n) registry =
     palt
       (pbind (palt (conjunction n registry) (brackets n registry)) (\<lambda>phi.
          pbind (palt (skip (qi_char (CHR '';''))) (skip (qi_char (CHR ''|'')))) (\<lambda>_.
            pbind (palt (disjunction n registry) (brackets n registry)) (\<lambda>psi.
              preturn (Formula_or phi psi)))))
       (conjunction n registry)"
| "conjunction 0 registry = pthrow OutOfFuel"
| "conjunction (Suc n) registry =
     palt
       (pbind (palt (unary n registry) (brackets n registry)) (\<lambda>phi.
          pbind (palt (skip (qi_char (CHR '',''))) (skip (qi_char (CHR ''&'')))) (\<lambda>_.
            pbind (palt (conjunction n registry) (brackets n registry)) (\<lambda>psi.
              preturn (Formula_and phi psi)))))
       (unary n registry)"
| "brackets 0 registry = pthrow OutOfFuel"
| "brackets (Suc n) registry =
     pbind (skip (qi_char (CHR ''(''))) (\<lambda>_. pbind (formula n registry) (\<lambda>phi.
       pbind (skip (qi_char (CHR '')''))) (\<lambda>_. preturn phi)))"
| "unary 0 registry = pthrow OutOfFuel"
| "unary (Suc n) registry =
     palt (modalFormula n registry)
       (palt (negation n registry)
          (pbind (predicate n registry) (\<lambda>p. preturn (PredicateFormula p))))"
| "negation 0 registry = pthrow OutOfFuel"
| "negation (Suc n) registry =
     pbind (skip (qi_char (CHR ''~''))) (\<lambda>_.
       pbind (palt (unary n registry) (brackets n registry)) (\<lambda>phi. preturn (Formula_not phi)))"
| "modalFormula 0 registry = pthrow OutOfFuel"
| "modalFormula (Suc n) registry =
     palt (belief n registry)
       (palt (knowledge n registry) (palt (oncePast n registry) (alwaysPast n registry)))"
| "belief 0 registry = pthrow OutOfFuel"
| "belief (Suc n) registry =
     modal (CHR ''B'') createB registry (palt (unary n registry) (brackets n registry))"
| "knowledge 0 registry = pthrow OutOfFuel"
| "knowledge (Suc n) registry =
     modal (CHR ''K'') createK registry (palt (unary n registry) (brackets n registry))"
| "oncePast 0 registry = pthrow OutOfFuel"
| "oncePast (Suc n) registry =
     modal (CHR ''P'') createP registry (palt (unary n registry) (brackets n registry))"
| "alwaysPast 0 registry = pthrow OutOfFuel"
| "alwaysPast (Suc n) registry =
     modal (CHR ''H'') createH registry (palt (unary n registry) (brackets n registry))"

subsection \<open>Entry points\<close>

text \<open>
  \<open>parse_with\<close> is the template function \<open>parse_\<close>: \<open>qi::phrase_parse\<close> with the
  skipper \<open>ascii::space\<close>, which skips white space after the match as well, and the
  test that the whole input was read.
\<close>

definition parse_with :: "'a parser \<Rightarrow> string \<Rightarrow> Error + 'a" where
  "parse_with rule queryString =
     (case rule queryString of
        Inl e \<Rightarrow> Inl e
      | Inr None \<Rightarrow> Inl (QueryError_InvalidSyntax queryString)
      | Inr (Some (result, rest)) \<Rightarrow>
          if dropWhile is_space rest = [] then Inr result
          else Inl (QueryError_InvalidSyntax queryString))"

definition parse :: "nat \<Rightarrow> PrefixRegistry \<Rightarrow> string \<Rightarrow> Error + Formula" where
  "parse fuel registry queryString = parse_with (formula fuel registry) queryString"

definition parsePredicate :: "nat \<Rightarrow> PrefixRegistry \<Rightarrow> string \<Rightarrow> Error + Term" where
  "parsePredicate fuel registry queryString = parse_with (predicate fuel registry) queryString"

definition parseConstant :: "PrefixRegistry \<Rightarrow> string \<Rightarrow> Error + Term" where
  "parseConstant registry queryString = parse_with (skip (constant_rule registry)) queryString"

definition parseRawAtom :: "PrefixRegistry \<Rightarrow> string \<Rightarrow> Error + string" where
  "parseRawAtom registry queryString = parse_with (skip (atomRaw registry)) queryString"

section \<open>The option rules in the words of the specification\<close>

text \<open>
  The specification gives each modal operator positional and named parameters:
  for \<open>B\<close> "first positional string -> agent; first positional float -> confidence",
  with the names \<open>agent\<close>/\<open>a\<close> (string) and \<open>confidence\<close>/\<open>c\<close> (float); \<open>K\<close> has
  the agent only, by the same rule; for \<open>P\<close> and \<open>H\<close> "first positional float ->
  begin; second -> end", with the names \<open>begin\<close>/\<open>since\<close> and \<open>end\<close>/\<open>until\<close>.
  "Duplicate assignments, unknown keys, or type mismatches raise" the error. The
  definitions below state this reading; they are compared with the code in a later
  section.
\<close>

datatype Parameter = Agent | Confidence | Begin | End

text \<open>A named option \<open>key=value\<close>: the predicate of arity 2 the rule \<open>keyvalue\<close>
  makes.\<close>

definition spec_named :: "Term \<Rightarrow> (Term \<times> Term) option" where
  "spec_named opt =
     (case opt of
        Predicate ind [key, val] \<Rightarrow> if indicator_arity ind = 2 then Some (key, val) else None
      | _ \<Rightarrow> None)"

text \<open>
  The parameter an option assigns under each operator in the words of the
  specification; \<open>None\<close> for an unknown key, a value of the wrong type or a
  positional value with no parameter at its position. \<open>strings\<close> and \<open>floats\<close> count
  the positional strings and positional floats before the option, so that the option
  is the first positional float when \<open>floats = 0\<close> and the second when
  \<open>floats = 1\<close>; the set of the parameters assigned so far is not used.
\<close>

definition spec_assigns_K :: "Parameter set \<Rightarrow> nat \<Rightarrow> nat \<Rightarrow> Term \<Rightarrow> Parameter option" where
  "spec_assigns_K assigned strings floats opt =
     (case opt of
        StringTerm s \<Rightarrow> if strings = 0 then Some Agent else None
      | _ \<Rightarrow>
         (case spec_named opt of
            Some (key, StringTerm v) \<Rightarrow>
              if key = StringTerm ''agent'' \<or> key = StringTerm ''a'' then Some Agent else None
          | _ \<Rightarrow> None))"

definition spec_assigns_B :: "Parameter set \<Rightarrow> nat \<Rightarrow> nat \<Rightarrow> Term \<Rightarrow> Parameter option" where
  "spec_assigns_B assigned strings floats opt =
     (case opt of
        StringTerm s \<Rightarrow> if strings = 0 then Some Agent else None
      | DoubleTerm d \<Rightarrow> if floats = 0 then Some Confidence else None
      | _ \<Rightarrow>
         (case spec_named opt of
            Some (key, StringTerm v) \<Rightarrow>
              if key = StringTerm ''agent'' \<or> key = StringTerm ''a'' then Some Agent else None
          | Some (key, DoubleTerm v) \<Rightarrow>
              if key = StringTerm ''confidence'' \<or> key = StringTerm ''c'' then Some Confidence else None
          | _ \<Rightarrow> None))"

definition spec_assigns_PH :: "Parameter set \<Rightarrow> nat \<Rightarrow> nat \<Rightarrow> Term \<Rightarrow> Parameter option" where
  "spec_assigns_PH assigned strings floats opt =
     (case opt of
        DoubleTerm d \<Rightarrow> if floats = 0 then Some Begin else if floats = 1 then Some End else None
      | _ \<Rightarrow>
         (case spec_named opt of
            Some (key, DoubleTerm v) \<Rightarrow>
              if key = StringTerm ''begin'' \<or> key = StringTerm ''since'' then Some Begin
              else if key = StringTerm ''end'' \<or> key = StringTerm ''until'' then Some End
              else None
          | _ \<Rightarrow> None))"

text \<open>
  The reading of \<open>P\<close> and \<open>H\<close> as amended: a positional float assigns the begin when
  the begin is not assigned yet, by position or by name, and the end otherwise. The
  named options are as in the specification.
\<close>

definition amended_assigns_PH :: "Parameter set \<Rightarrow> nat \<Rightarrow> nat \<Rightarrow> Term \<Rightarrow> Parameter option" where
  "amended_assigns_PH assigned strings floats opt =
     (case opt of
        DoubleTerm d \<Rightarrow> Some (if Begin \<in> assigned then End else Begin)
      | _ \<Rightarrow>
         (case spec_named opt of
            Some (key, DoubleTerm v) \<Rightarrow>
              if key = StringTerm ''begin'' \<or> key = StringTerm ''since'' then Some Begin
              else if key = StringTerm ''end'' \<or> key = StringTerm ''until'' then Some End
              else None
          | _ \<Rightarrow> None))"

definition count_if :: "bool \<Rightarrow> nat \<Rightarrow> nat" where
  "count_if b n = (if b then Suc n else n)"

text \<open>The first unrecognized option of a list: the first that assigns no parameter or
  one that is already assigned.\<close>

fun spec_first_unrecognized ::
  "(Parameter set \<Rightarrow> nat \<Rightarrow> nat \<Rightarrow> Term \<Rightarrow> Parameter option) \<Rightarrow>
   Parameter set \<Rightarrow> nat \<Rightarrow> nat \<Rightarrow> Term list \<Rightarrow> Term option" where
  "spec_first_unrecognized assigns assigned strings floats [] = None"
| "spec_first_unrecognized assigns assigned strings floats (opt # rest) =
     (case assigns assigned strings floats opt of
        None \<Rightarrow> Some opt
      | Some p \<Rightarrow>
          if p \<in> assigned then Some opt
          else spec_first_unrecognized assigns (insert p assigned)
                 (count_if (termType opt = STRING) strings)
                 (count_if (termType opt = DOUBLE) floats) rest)"

text \<open>In a well-formed option the arity of a predicate is the number of its
  arguments, as for every predicate made by \<open>Predicate(functor, arguments)\<close>.\<close>

fun option_wf :: "Term \<Rightarrow> bool" where
  "option_wf (Predicate ind arguments) \<longleftrightarrow> unat (indicator_arity ind) = length arguments"
| "option_wf _ \<longleftrightarrow> True"

text \<open>How the local variables of the three loops hold the parameters assigned so
  far and the counts of positional options.\<close>

definition holds_B :: "string option \<times> double option \<Rightarrow> Parameter set \<Rightarrow> nat \<Rightarrow> nat \<Rightarrow> bool" where
  "holds_B vars assigned strings floats \<longleftrightarrow>
     assigned = (if fst vars = None then {} else {Agent}) \<union> (if snd vars = None then {} else {Confidence}) \<and>
     (strings = 0 \<or> Agent \<in> assigned) \<and> (floats = 0 \<or> Confidence \<in> assigned)"

definition holds_K :: "string option \<Rightarrow> Parameter set \<Rightarrow> nat \<Rightarrow> nat \<Rightarrow> bool" where
  "holds_K agentName assigned strings floats \<longleftrightarrow>
     assigned = (if agentName = None then {} else {Agent}) \<and> (strings = 0 \<or> Agent \<in> assigned)"

definition holds_PH :: "double option \<times> double option \<Rightarrow> Parameter set \<Rightarrow> nat \<Rightarrow> nat \<Rightarrow> bool" where
  "holds_PH vars assigned strings floats \<longleftrightarrow>
     assigned = (if fst vars = None then {} else {Begin}) \<union> (if snd vars = None then {} else {End})"

text \<open>
  The input \<open>s\<close> starts with a modal formula: the operator letter, an option list
  that the rule \<open>options\<close> reads as \<open>opts\<close>, and an operand that the operand rule of
  the modal formula reads with fuel \<open>n\<close>.
\<close>

definition starts_with_modal :: "nat \<Rightarrow> PrefixRegistry \<Rightarrow> char \<Rightarrow> string \<Rightarrow> Term list \<Rightarrow> bool" where
  "starts_with_modal n registry letter s opts \<longleftrightarrow>
     (\<exists>c s1 s2 phi s3.
        skip (qi_char letter) s = Inr (Some (c, s1)) \<and>
        skip (options registry) s1 = Inr (Some (ListTerm opts, s2)) \<and>
        palt (unary n registry) (brackets n registry) s2 = Inr (Some (phi, s3)))"

section \<open>Example inputs\<close>

text \<open>
  A manager with one registered factory, \<open>Prolog\<close>, whose reasoners answer
  \<open>loadConfiguration\<close> with the given bool, at index 7, and a configuration that asks
  for the type \<open>Prolog\<close> without a name.
\<close>

definition demo_reasoner :: "bool \<Rightarrow> string \<Rightarrow> IReasoner" where
  "demo_reasoner ok rid =
     \<lparr>reasonerID = rid, loadConfiguration = (\<lambda>cfg. ok), isCurrentPredicate = (\<lambda>p. False)\<rparr>"

definition demo_factory :: "bool \<Rightarrow> ReasonerFactory" where
  "demo_factory ok = \<lparr>factory_name = ''Prolog'', createReasoner = (\<lambda>rid. Some (demo_reasoner ok rid))\<rparr>"

definition demo_manager :: "bool \<Rightarrow> ReasonerManager" where
  "demo_manager ok =
     \<lparr>reasonerFactories = [''Prolog'' \<mapsto> demo_factory ok], loadedPlugins = Map.empty,
      reasonerPool = [], reasonerIndex = 7, log = []\<rparr>"

definition demo_config :: ptree where
  "demo_config = PTree [] [(''type'', PTree ''Prolog'' [])]"

text \<open>A prefix registry without prefixes.\<close>

definition no_prefixes :: PrefixRegistry where
  "no_prefixes = (\<lambda>prefix name. None)"

section \<open>Properties of the ordering on predicate indicators\<close>

text \<open>
  Claim C7: \<open>operator<\<close> on \<open>PredicateIndicator\<close> is a strict total order on
  (functor, arity) pairs. The code returns true in both directions for the
  indicators \<open>b/0\<close> and \<open>a/1\<close>: on these two distinct indicators both \<open>x < y\<close> and
  \<open>y < x\<close> hold, so the relation is not asymmetric, and with irreflexivity it is not
  transitive either.
\<close>

theorem PredicateIndicator_less_both_directions:
  "PredicateIndicator_less (PredicateIndicator ''b'' 0) (PredicateIndicator ''a'' 1) \<and>
   PredicateIndicator_less (PredicateIndicator ''a'' 1) (PredicateIndicator ''b'' 0) \<and>
   \<not> PredicateIndicator_less (PredicateIndicator ''b'' 0) (PredicateIndicator ''b'' 0)"
  by (simp add: PredicateIndicator_less_def)

section \<open>Properties of the unifier\<close>

text \<open>
  Claim C1: if the unifier of two terms exists, applying its substitution makes the
  terms structurally equal, and two compound terms with different functors do not
  unify. The code compares the functor and the arity of \<open>p0\<close> with themselves, so
  for \<open>f(a)\<close> and \<open>g(a)\<close> it reports that a unifier exists, with the empty
  substitution, under which the two terms stay different.
\<close>

theorem Unifier_accepts_different_functors:
  "Unifier_new (Predicate_new ''f'' [StringTerm ''a'']) (Predicate_new ''g'' [StringTerm ''a'']) =
     Inr \<lparr>u_t0 = Predicate_new ''f'' [StringTerm ''a''],
          u_t1 = Predicate_new ''g'' [StringTerm ''a''],
          u_exists = True, u_mapping = []\<rparr> \<and>
   applySubstitution1 [] (Predicate_new ''f'' [StringTerm ''a'']) \<noteq>
   applySubstitution1 [] (Predicate_new ''g'' [StringTerm ''a''])"
  by (simp add: Unifier_new_def Predicate_new_def)

text \<open>
  Claim C9, as stated: when no unifier exists, \<open>Unifier::apply\<close> returns the Bottom
  singleton, which is not null and not either input term. For the inputs Bottom and
  Top no unifier exists and the returned Bottom singleton is the first input.
\<close>

theorem Unifier_apply_Bottom_is_input:
  "Unifier_new BottomTerm TopTerm =
     Inr \<lparr>u_t0 = BottomTerm, u_t1 = TopTerm, u_exists = False, u_mapping = []\<rparr> \<and>
   Unifier_apply \<lparr>u_t0 = BottomTerm, u_t1 = TopTerm, u_exists = False, u_mapping = []\<rparr> =
     Some BottomTerm"
  by (simp add: Unifier_new_def Unifier_apply_def isBottom_def)

text \<open>
  Claim C9, amended: when no unifier exists, \<open>Unifier::apply\<close> returns the Bottom
  singleton and never null; the returned term is one of the input terms exactly when
  that input is itself Bottom.
\<close>

theorem Unifier_apply_no_unifier:
  assumes "Unifier_new t0 t1 = Inr u" and "\<not> u_exists u"
  shows "Unifier_apply u = Some BottomTerm \<and> Unifier_apply u \<noteq> None \<and>
         (Unifier_apply u = Some t0 \<longleftrightarrow> t0 = BottomTerm) \<and>
         (Unifier_apply u = Some t1 \<longleftrightarrow> t1 = BottomTerm)"
  using assms by (auto simp: Unifier_apply_def)

theorem Unifier_apply_no_unifier_witness:
  "Unifier_new (StringTerm ''a'') (StringTerm ''b'') =
     Inr \<lparr>u_t0 = StringTerm ''a'', u_t1 = StringTerm ''b'', u_exists = False, u_mapping = []\<rparr> \<and>
   Unifier_apply \<lparr>u_t0 = StringTerm ''a'', u_t1 = StringTerm ''b'', u_exists = False, u_mapping = []\<rparr> =
     Some BottomTerm \<and>
   Unifier_apply \<lparr>u_t0 = StringTerm ''a'', u_t1 = StringTerm ''b'', u_exists = False, u_mapping = []\<rparr> \<noteq>
     Some (StringTerm ''a'') \<and>
   Unifier_apply \<lparr>u_t0 = StringTerm ''a'', u_t1 = StringTerm ''b'', u_exists = False, u_mapping = []\<rparr> \<noteq>
     Some (StringTerm ''b'')"
proof -
  have new: "Unifier_new (StringTerm ''a'') (StringTerm ''b'') =
     Inr \<lparr>u_t0 = StringTerm ''a'', u_t1 = StringTerm ''b'', u_exists = False, u_mapping = []\<rparr>"
    by (simp add: Unifier_new_def)
  from Unifier_apply_no_unifier [OF new] show ?thesis
    using new by simp
qed

section \<open>Properties of the substitution map\<close>

lemma map_insert_present: "map_find m k \<noteq> None \<Longrightarrow> map_insert k v m = m"
  by (auto simp: map_insert_def)

text \<open>
  Claim C10: \<open>Substitution::set\<close> of Substitution.cpp inserts but never overwrites.
  When the variable \<open>v\<close> is bound to \<open>t\<close>, \<open>set(v, t')\<close> leaves the mapping
  unchanged and \<open>get(v)\<close> still returns \<open>t\<close>.
\<close>

theorem Substitution_set_keeps_binding:
  assumes "map_find mapping v = Some t"
  shows "Substitution_set mapping v t' = mapping \<and>
         Substitution_get (Substitution_set mapping v t') v = t"
  using assms by (simp add: Substitution_set_def Substitution_get_def map_insert_present)

theorem Substitution_set_keeps_binding_witness:
  "map_find [(''X'', Some (StringTerm ''a''))] ''X'' = Some (Some (StringTerm ''a'')) \<and>
   Substitution_set [(''X'', Some (StringTerm ''a''))] ''X'' (Some (StringTerm ''b'')) =
     [(''X'', Some (StringTerm ''a''))] \<and>
   Substitution_get
     (Substitution_set [(''X'', Some (StringTerm ''a''))] ''X'' (Some (StringTerm ''b''))) ''X'' =
     Some (StringTerm ''a'')"
proof -
  have bound: "map_find [(''X'', Some (StringTerm ''a''))] ''X'' = Some (Some (StringTerm ''a''))"
    by (simp add: map_find_def)
  from Substitution_set_keeps_binding [OF bound, of "Some (StringTerm ''b'')"] bound
  show ?thesis by (simp add: Substitution_get_def)
qed

section \<open>The journal and the merge\<close>

lemma rollBack_Nil [simp]: "Reversible_rollBack [] m = Inr ([], m)"
  by (simp add: Reversible_rollBack.simps queue_empty_def)

lemma rollBack_Cons [simp]: "Reversible_rollBack (x # q) m =
  (case Operation_rollBack x m of Inl e \<Rightarrow> Inl e | Inr m' \<Rightarrow> Reversible_rollBack q m')"
  by (subst Reversible_rollBack.simps)
     (simp add: queue_empty_def queue_front_def queue_pop_def cong: sum.case_cong)

lemma map_find_None_iff: "map_find m k = None \<longleftrightarrow> k \<notin> fst ` set m"
  by (simp add: map_find_def map_of_eq_None_iff)

lemma map_erase_place: "k \<notin> fst ` set m \<Longrightarrow> map_erase k (map_place k v m) = m"
  by (induction m) auto

lemma map_erase_insert: "map_find m k = None \<Longrightarrow> map_erase k (map_insert k v m) = m"
  using map_find_None_iff [of m k] by (simp add: map_insert_def map_erase_place)

lemma map_of_map_place: "map_of (map_place k v m) k \<noteq> None"
  by (induction m) auto

lemma map_assign_assign: "map_find m k = Some v0 \<Longrightarrow> map_assign k v0 (map_assign k v m) = m"
  by (induction m) (auto simp: map_find_def split: if_splits)

lemma map_find_insert: "map_find (map_insert k v m) k \<noteq> None"
  by (cases "map_find m k") (auto simp: map_insert_def map_find_def map_of_map_place)

lemma map_fst_map_assign: "map fst (map_assign k v m) = map fst m"
  by (induction m) auto

lemma keys_map_assign: "fst ` set (map_assign k v m) = fst ` set m"
  using map_fst_map_assign [of k v m] by (metis set_map)

lemma map_find_assign_None: "map_find (map_assign k v m) k' = None \<longleftrightarrow> map_find m k' = None"
  by (simp add: map_find_None_iff keys_map_assign)

lemma map_find_erase_other: "k \<noteq> k' \<Longrightarrow> map_find (map_erase k m) k' = map_find m k'"
  by (induction m) (auto simp: map_find_def)

lemma map_find_assign_other: "k \<noteq> k' \<Longrightarrow> map_find (map_assign k v m) k' = map_find m k'"
  by (induction m) (auto simp: map_find_def)

lemma map_erase_commute: "map_erase k (map_erase k' m) = map_erase k' (map_erase k m)"
  by (induction m) auto

lemma map_erase_assign: "k \<noteq> k' \<Longrightarrow> map_erase k (map_assign k' v m) = map_assign k' v (map_erase k m)"
  by (induction m) auto

lemma map_assign_commute:
  "k \<noteq> k' \<Longrightarrow> map_assign k v (map_assign k' v' m) = map_assign k' v' (map_assign k v m)"
  by (induction m) auto

lemma Operation_rollBack_erase:
  "Operation_var u \<noteq> var \<Longrightarrow> Operation_rollBack u m = Inr m' \<Longrightarrow>
   Operation_rollBack u (map_erase var m) = Inr (map_erase var m')"
  by (cases u) (auto simp: map_find_erase_other map_erase_commute map_erase_assign split: if_splits)

lemma Operation_rollBack_assign:
  "Operation_var u \<noteq> var \<Longrightarrow> Operation_rollBack u m = Inr m' \<Longrightarrow>
   Operation_rollBack u (map_assign var t m) = Inr (map_assign var t m')"
  by (cases u) (auto simp: map_find_assign_other map_assign_commute map_erase_assign split: if_splits)

lemma Operation_rollBack_find:
  "Operation_var u \<noteq> var \<Longrightarrow> Operation_rollBack u m = Inr m' \<Longrightarrow> map_find m' var = map_find m var"
  by (cases u) (auto simp: map_find_assign_other map_find_erase_other split: if_splits)

lemma rollBack_erase:
  "var \<notin> Operation_var ` set us \<Longrightarrow> Reversible_rollBack us m = Inr (q, m') \<Longrightarrow>
   Reversible_rollBack us (map_erase var m) = Inr (q, map_erase var m')"
proof (induction us arbitrary: m)
  case Nil
  then show ?case by simp
next
  case (Cons u us)
  from Cons.prems obtain m1 where u: "Operation_rollBack u m = Inr m1"
    and rest: "Reversible_rollBack us m1 = Inr (q, m')"
    by (auto split: sum.splits)
  from Cons.prems have "Operation_var u \<noteq> var" and "var \<notin> Operation_var ` set us" by auto
  with u rest Cons.IH show ?case
    by (simp add: Operation_rollBack_erase)
qed

lemma rollBack_assign:
  "var \<notin> Operation_var ` set us \<Longrightarrow> Reversible_rollBack us m = Inr (q, m') \<Longrightarrow>
   Reversible_rollBack us (map_assign var t m) = Inr (q, map_assign var t m')"
proof (induction us arbitrary: m)
  case Nil
  then show ?case by simp
next
  case (Cons u us)
  from Cons.prems obtain m1 where u: "Operation_rollBack u m = Inr m1"
    and rest: "Reversible_rollBack us m1 = Inr (q, m')"
    by (auto split: sum.splits)
  from Cons.prems have "Operation_var u \<noteq> var" and "var \<notin> Operation_var ` set us" by auto
  with u rest Cons.IH show ?case
    by (simp add: Operation_rollBack_assign)
qed

lemma rollBack_find:
  "var \<notin> Operation_var ` set us \<Longrightarrow> Reversible_rollBack us m = Inr (q, m') \<Longrightarrow>
   map_find m var = map_find m' var"
proof (induction us arbitrary: m)
  case Nil
  then show ?case by simp
next
  case (Cons u us)
  from Cons.prems obtain m1 where u: "Operation_rollBack u m = Inr m1"
    and rest: "Reversible_rollBack us m1 = Inr (q, m')"
    by (auto split: sum.splits)
  from Cons.prems have "Operation_var u \<noteq> var" and "var \<notin> Operation_var ` set us" by auto
  with u rest Cons.IH [of m1] show ?case
    by (simp add: Operation_rollBack_find)
qed

lemma unifyWith_journal:
  "distinct (map fst other) \<Longrightarrow>
   Substitution_unifyWith U m other (Some j) = Inr (b, m1, r) \<Longrightarrow>
   \<exists>us. r = Some (j @ us) \<and> Operation_var ` set us \<subseteq> fst ` set other \<and>
        Reversible_rollBack us m1 = Inr ([], m)"
proof (induction other arbitrary: m j)
  case Nil
  then show ?case by simp
next
  case (Cons p other)
  obtain var t1 where p: "p = (var, t1)" by (cases p)
  from Cons.prems(1) p have dist: "distinct (map fst other)" and fresh: "var \<notin> fst ` set other"
    by auto
  show ?case
  proof (cases "map_find m var")
    case None
    with Cons.prems(2) p have
      "Substitution_unifyWith U (map_insert var t1 m) other (Some (queue_push j (Added var))) = Inr (b, m1, r)"
      by simp
    from Cons.IH [OF dist this] obtain us where
      r: "r = Some (queue_push j (Added var) @ us)" and
      sub: "Operation_var ` set us \<subseteq> fst ` set other" and
      rb: "Reversible_rollBack us m1 = Inr ([], map_insert var t1 m)"
      by blast
    from sub fresh have nin: "var \<notin> Operation_var ` set us" by auto
    from rollBack_find [OF nin rb] have "map_find m1 var \<noteq> None"
      by (simp add: map_find_insert)
    moreover from rollBack_erase [OF nin rb] None
    have "Reversible_rollBack us (map_erase var m1) = Inr ([], m)"
      by (simp add: map_erase_insert)
    ultimately have "Reversible_rollBack (Added var # us) m1 = Inr ([], m)"
      by simp
    with r sub p show ?thesis
      by (intro exI [of _ "Added var # us"]) (auto simp: queue_push_def)
  next
    case (Some t0)
    show ?thesis
    proof (cases "U t0 t1")
      case (Inl e)
      with Cons.prems(2) p Some show ?thesis by simp
    next
      case (Inr res)
      show ?thesis
      proof (cases res)
        case None
        with Cons.prems(2) p Some Inr show ?thesis by auto
      next
        case (Some t)
        with Cons.prems(2) p \<open>map_find m var = Some t0\<close> Inr have
          "Substitution_unifyWith U (map_assign var t m) other (Some (queue_push j (Replaced var t0))) = Inr (b, m1, r)"
          by simp
        from Cons.IH [OF dist this] obtain us where
          r: "r = Some (queue_push j (Replaced var t0) @ us)" and
          sub: "Operation_var ` set us \<subseteq> fst ` set other" and
          rb: "Reversible_rollBack us m1 = Inr ([], map_assign var t m)"
          by blast
        from sub fresh have nin: "var \<notin> Operation_var ` set us" by auto
        from rollBack_find [OF nin rb] \<open>map_find m var = Some t0\<close> have "map_find m1 var \<noteq> None"
          by (simp add: map_find_assign_None)
        moreover from rollBack_assign [OF nin rb] \<open>map_find m var = Some t0\<close>
        have "Reversible_rollBack us (map_assign var t0 m1) = Inr ([], m)"
          by (simp add: map_assign_assign)
        ultimately have "Reversible_rollBack (Replaced var t0 # us) m1 = Inr ([], m)"
          by simp
        with r sub p show ?thesis
          by (intro exI [of _ "Replaced var t0 # us"]) (auto simp: queue_push_def)
      qed
    qed
  qed
qed

text \<open>
  Claim C2 (rollback identity): for substitutions \<open>mapping\<close> and \<open>other\<close> (a map, so
  its keys are distinct) and a fresh, empty journal, \<open>unifyWith\<close> followed by
  \<open>rollBack\<close> of the journal restores \<open>mapping\<close> exactly, with the same hash,
  whether the merge returned true or false. It holds for every unifier.
\<close>

theorem rollback_identity:
  assumes "distinct (map fst other)"
    and "Substitution_unifyWith unifier mapping other (Some []) = Inr (b, mapping', reversible)"
  shows "\<exists>j. reversible = Some j \<and>
           Reversible_rollBack j mapping' = Inr ([], mapping) \<and>
           map_sum id (\<lambda>(q, m). Substitution_computeHash key_hash_of value_hash_of m)
             (Reversible_rollBack j mapping') =
           Inr (Substitution_computeHash key_hash_of value_hash_of mapping)"
proof -
  from unifyWith_journal [OF assms] obtain us where
    "reversible = Some us" and "Reversible_rollBack us mapping' = Inr ([], mapping)"
    by auto
  then show ?thesis by simp
qed

lemmas eval_subst = lang_Unifier_def Unifier_new_def Unifier_apply_def map_find_def queue_push_def
  lang_Substitution_set_def map_put_def map_insert_def

theorem rollback_identity_witness:
  "distinct (map fst [(''X'', Some (StringTerm ''a'')), (''Z'', Some (StringTerm ''b''))]) \<and>
   Substitution_unifyWith lang_Unifier [(''X'', Some (Variable ''Y''))]
       [(''X'', Some (StringTerm ''a'')), (''Z'', Some (StringTerm ''b''))] (Some []) =
     Inr (True, [(''X'', Some (StringTerm ''a'')), (''Z'', Some (StringTerm ''b''))],
          Some [Replaced ''X'' (Some (Variable ''Y'')), Added ''Z'']) \<and>
   Reversible_rollBack [Replaced ''X'' (Some (Variable ''Y'')), Added ''Z'']
       [(''X'', Some (StringTerm ''a'')), (''Z'', Some (StringTerm ''b''))] =
     Inr ([], [(''X'', Some (Variable ''Y''))]) \<and>
   distinct (map fst [(''W'', Some (StringTerm ''b'')), (''X'', Some (StringTerm ''c''))]) \<and>
   Substitution_unifyWith lang_Unifier [(''X'', Some (StringTerm ''a''))]
       [(''W'', Some (StringTerm ''b'')), (''X'', Some (StringTerm ''c''))] (Some []) =
     Inr (False, [(''W'', Some (StringTerm ''b'')), (''X'', Some (StringTerm ''a''))],
          Some [Added ''W'']) \<and>
   Reversible_rollBack [Added ''W'']
       [(''W'', Some (StringTerm ''b'')), (''X'', Some (StringTerm ''a''))] =
     Inr ([], [(''X'', Some (StringTerm ''a''))])"
proof -
  have d1: "distinct (map fst [(''X'', Some (StringTerm ''a'')), (''Z'', Some (StringTerm ''b''))])"
    by simp
  have u1: "Substitution_unifyWith lang_Unifier [(''X'', Some (Variable ''Y''))]
       [(''X'', Some (StringTerm ''a'')), (''Z'', Some (StringTerm ''b''))] (Some []) =
     Inr (True, [(''X'', Some (StringTerm ''a'')), (''Z'', Some (StringTerm ''b''))],
          Some [Replaced ''X'' (Some (Variable ''Y'')), Added ''Z''])"
    by (simp add: eval_subst)
  have d2: "distinct (map fst [(''W'', Some (StringTerm ''b'')), (''X'', Some (StringTerm ''c''))])"
    by simp
  have u2: "Substitution_unifyWith lang_Unifier [(''X'', Some (StringTerm ''a''))]
       [(''W'', Some (StringTerm ''b'')), (''X'', Some (StringTerm ''c''))] (Some []) =
     Inr (False, [(''W'', Some (StringTerm ''b'')), (''X'', Some (StringTerm ''a''))],
          Some [Added ''W''])"
    by (simp add: eval_subst)
  from rollback_identity [OF d1 u1] rollback_identity [OF d2 u2] d1 d2 u1 u2
  show ?thesis by simp
qed

text \<open>
  Claim C3: the journal is a last-in-first-out stack; each merge step pushes one undo
  entry and rollback runs the undo closures in reverse order of pushing. The code
  runs \<open>front()\<close>, the entry pushed first, and so undoes the oldest change first.
  With one journal for two merges this does not undo the merges. In the first case
  the first merge replaces the binding \<open>X = Y\<close> by \<open>X = a\<close> and the second keeps
  \<open>X = a\<close>: rollback leaves \<open>X = a\<close>, where the reverse order restores \<open>X = Y\<close>.
  In the second case the first merge adds \<open>X = a\<close> to the empty substitution and
  the second replaces it: rollback erases the entry and then assigns through the
  iterator of the erased entry, where the reverse order restores the empty
  substitution. \<open>Substitution::rollBack\<close> of terms.cpp does the same.
\<close>

theorem rollBack_runs_oldest_first:
  "queue_front (queue_push (queue_push [] (Replaced ''X'' (Some (Variable ''Y''))))
       (Replaced ''X'' (Some (StringTerm ''a'')))) =
     Replaced ''X'' (Some (Variable ''Y'')) \<and>
   Substitution_unifyWith lang_Unifier [(''X'', Some (Variable ''Y''))]
       [(''X'', Some (StringTerm ''a''))] (Some []) =
     Inr (True, [(''X'', Some (StringTerm ''a''))], Some [Replaced ''X'' (Some (Variable ''Y''))]) \<and>
   Substitution_unifyWith lang_Unifier [(''X'', Some (StringTerm ''a''))]
       [(''X'', Some (StringTerm ''a''))] (Some [Replaced ''X'' (Some (Variable ''Y''))]) =
     Inr (True, [(''X'', Some (StringTerm ''a''))],
          Some [Replaced ''X'' (Some (Variable ''Y'')), Replaced ''X'' (Some (StringTerm ''a''))]) \<and>
   Reversible_rollBack
       [Replaced ''X'' (Some (Variable ''Y'')), Replaced ''X'' (Some (StringTerm ''a''))]
       [(''X'', Some (StringTerm ''a''))] =
     Inr ([], [(''X'', Some (StringTerm ''a''))]) \<and>
   Reversible_rollBack
       (rev [Replaced ''X'' (Some (Variable ''Y'')), Replaced ''X'' (Some (StringTerm ''a''))])
       [(''X'', Some (StringTerm ''a''))] =
     Inr ([], [(''X'', Some (Variable ''Y''))]) \<and>
   Substitution_unifyWith lang_Unifier [] [(''X'', Some (StringTerm ''a''))] (Some []) =
     Inr (True, [(''X'', Some (StringTerm ''a''))], Some [Added ''X'']) \<and>
   Substitution_unifyWith lang_Unifier [(''X'', Some (StringTerm ''a''))]
       [(''X'', Some (StringTerm ''a''))] (Some [Added ''X'']) =
     Inr (True, [(''X'', Some (StringTerm ''a''))],
          Some [Added ''X'', Replaced ''X'' (Some (StringTerm ''a''))]) \<and>
   Reversible_rollBack [Added ''X'', Replaced ''X'' (Some (StringTerm ''a''))]
       [(''X'', Some (StringTerm ''a''))] =
     Inl InvalidIterator \<and>
   Reversible_rollBack (rev [Added ''X'', Replaced ''X'' (Some (StringTerm ''a''))])
       [(''X'', Some (StringTerm ''a''))] =
     Inr ([], []) \<and>
   Substitution_rollBack
       [Replaced ''X'' (Some (Variable ''Y'')), Replaced ''X'' (Some (StringTerm ''a''))]
       [(''X'', Some (StringTerm ''a''))] =
     Inr ([], [(''X'', Some (StringTerm ''a''))])"
  by (simp add: eval_subst queue_front_def Substitution_rollBack_def)

section \<open>Loading a reasoner\<close>

lemma loadReasonerPlugin_keeps:
  "loadReasonerPlugin dl p s = (f, s1) \<Longrightarrow>
   reasonerIndex s1 = reasonerIndex s \<and> reasonerPool s1 = reasonerPool s"
  by (auto simp: loadReasonerPlugin_def KB_WARN_def Let_def split: option.splits prod.splits if_splits)

lemma loadReasoner_factory_keeps:
  "loadReasoner_factory dl config s = (f, s1) \<Longrightarrow>
   reasonerIndex s1 = reasonerIndex s \<and> reasonerPool s1 = reasonerPool s"
  by (auto simp: loadReasoner_factory_def KB_WARN_def dest: loadReasonerPlugin_keeps
      split: option.splits)

text \<open>
  Claim C8: in \<open>loadReasoner\<close>, once a factory has been resolved and an instance
  created, the call returns without an exception; if \<open>loadConfiguration\<close> of the
  instance returns false, the warning is logged and the pool is unchanged; if it
  returns true, the instance is added to the pool and no warning is logged; in both
  cases the index is incremented by one (in 32-bit unsigned arithmetic).
\<close>

theorem loadReasoner_after_creation:
  assumes "loadReasoner_factory dl config s = (Some factory, s1)"
    and "rid = loadReasoner_id config factory s1"
    and "createReasoner factory rid = Some reasoner"
    and "loadPropertyTree config
           (log (KB_INFO ''Using reasoner `{}` with type `{}`.'' [rid, factory_name factory] s1)) =
         (reasonerConfig, log3)"
  shows "\<exists>s'. loadReasoner dl config s = (None, s') \<and>
           reasonerIndex s' = reasonerIndex s + 1 \<and>
           (if loadConfiguration reasoner reasonerConfig
            then reasonerPool s' = reasonerPool s @ [reasoner] \<and> log s' = log3
            else reasonerPool s' = reasonerPool s \<and>
                 log s' = log3 @ [(WARN, ''Reasoner `{}` failed to loadConfiguration.'', [rid])])"
proof -
  from loadReasoner_factory_keeps [OF assms(1)]
  have keep: "reasonerIndex s1 = reasonerIndex s" "reasonerPool s1 = reasonerPool s"
    by simp_all
  show ?thesis
  proof (cases "loadConfiguration reasoner reasonerConfig")
    case True
    with assms keep show ?thesis
      by (simp add: loadReasoner_def Let_def addReasoner_def KB_INFO_def)
  next
    case False
    with assms keep show ?thesis
      by (simp add: loadReasoner_def Let_def KB_WARN_def KB_INFO_def)
  qed
qed

lemma to_string_7: "to_string 7 = ''7''"
  by (simp add: to_string.simps)

lemma demo_factory_found:
  "loadReasoner_factory (\<lambda>p. None) demo_config (demo_manager ok) = (Some (demo_factory ok), demo_manager ok)"
  by (simp add: loadReasoner_factory_def demo_config_def demo_manager_def get_optional_def
      get_child_optional_def)

lemma demo_id: "loadReasoner_id demo_config (demo_factory ok) (demo_manager ok) = ''Prolog7''"
  by (simp add: loadReasoner_id_def demo_config_def demo_manager_def demo_factory_def get_optional_def
      get_child_optional_def to_string_7)

lemma demo_created:
  "createReasoner (demo_factory ok) ''Prolog7'' = Some (demo_reasoner ok ''Prolog7'')"
  by (simp add: demo_factory_def)

lemma demo_tree:
  "loadPropertyTree demo_config
     (log (KB_INFO ''Using reasoner `{}` with type `{}`.'' [''Prolog7'', factory_name (demo_factory ok)]
        (demo_manager ok))) =
   (\<lparr>settings = [(StringTerm ''type'', StringTerm ''Prolog'')], dataFiles = []\<rparr>,
    [(INFO, ''Using reasoner `{}` with type `{}`.'', [''Prolog7'', ''Prolog''])])"
  by (simp add: loadPropertyTree_def demo_config_def demo_manager_def demo_factory_def KB_INFO_def
      get_child_optional_def ptree_empty_def)

theorem loadReasoner_after_creation_witness:
  "(\<exists>s'. loadReasoner (\<lambda>p. None) demo_config (demo_manager False) = (None, s') \<and>
      reasonerIndex s' = 8 \<and> reasonerPool s' = [] \<and>
      log s' = [(INFO, ''Using reasoner `{}` with type `{}`.'', [''Prolog7'', ''Prolog'']),
                (WARN, ''Reasoner `{}` failed to loadConfiguration.'', [''Prolog7''])]) \<and>
   (\<exists>s'. loadReasoner (\<lambda>p. None) demo_config (demo_manager True) = (None, s') \<and>
      reasonerIndex s' = 8 \<and> reasonerPool s' = [demo_reasoner True ''Prolog7''] \<and>
      log s' = [(INFO, ''Using reasoner `{}` with type `{}`.'', [''Prolog7'', ''Prolog''])])"
proof -
  have f: "\<not> loadConfiguration (demo_reasoner False ''Prolog7'') cfg"
    and t: "loadConfiguration (demo_reasoner True ''Prolog7'') cfg" for cfg
    by (simp_all add: demo_reasoner_def)
  have ix: "reasonerIndex (demo_manager ok) = 7" and pool: "reasonerPool (demo_manager ok) = []" for ok
    by (simp_all add: demo_manager_def)
  from loadReasoner_after_creation [OF demo_factory_found demo_id [symmetric] demo_created demo_tree, of False]
       loadReasoner_after_creation [OF demo_factory_found demo_id [symmetric] demo_created demo_tree, of True]
  show ?thesis
    by (simp add: f t ix pool)
qed

section \<open>Evaluating the parser\<close>

text \<open>
  The equations of the grammar rules, applied to an input: with these as rewrite
  rules a rule is unfolded only where it is called.
\<close>

lemmas parser_defs = parse_def parse_with_def preturn_def pthrow_def pbind_def palt_def qi_char_def lit_def
  skip_def is_space_def many_def plist_def is_lower_def is_upper_def is_digit_def is_alpha_def is_alnum_def
  word_char_def raw_word_def quoted_def singleQuotes_def doubleQuotes_def lowerPrefix_def upperPrefix_def
  iri_ns_def iri_entity_def createIRI_def iri_def atomRaw_def atom_def string_rule_def
  number_def constant_rule_def keyvalue_def option_def options_def nil_def constantList_def variable_def
  predicateWithArgs_def predicateNullary_def predicate_def modal_def Formula_and_def Formula_or_def
  Formula_not_def Predicate_new_def

lemmas number_defs = qi_double_def sign_of_def exponent_of_def digits_value_def scale10_def

lemmas option_defs = createB_def createK_def createP_def createH_def readTimeInterval_def
  createB_body_def createK_body_def readTimeInterval_body_def reportUnrecognized_def


lemma rules_applied:
  "formula (Suc n) registry s = palt (implication n registry) (brackets n registry) s"
  "implication (Suc n) registry s =
     palt
       (pbind (palt (disjunction n registry) (brackets n registry)) (\<lambda>phi.
          pbind (skip (lit ''->'')) (\<lambda>_.
            pbind (palt (implication n registry) (brackets n registry)) (\<lambda>psi.
              preturn (Implication phi psi)))))
       (disjunction n registry) s"
  "disjunction (Suc n) registry s =
     palt
       (pbind (palt (conjunction n registry) (brackets n registry)) (\<lambda>phi.
          pbind (palt (skip (qi_char (CHR '';''))) (skip (qi_char (CHR ''|'')))) (\<lambda>_.
            pbind (palt (disjunction n registry) (brackets n registry)) (\<lambda>psi.
              preturn (Formula_or phi psi)))))
       (conjunction n registry) s"
  "conjunction (Suc n) registry s =
     palt
       (pbind (palt (unary n registry) (brackets n registry)) (\<lambda>phi.
          pbind (palt (skip (qi_char (CHR '',''))) (skip (qi_char (CHR ''&'')))) (\<lambda>_.
            pbind (palt (conjunction n registry) (brackets n registry)) (\<lambda>psi.
              preturn (Formula_and phi psi)))))
       (unary n registry) s"
  "brackets (Suc n) registry s =
     pbind (skip (qi_char (CHR ''(''))) (\<lambda>_. pbind (formula n registry) (\<lambda>phi.
       pbind (skip (qi_char (CHR '')''))) (\<lambda>_. preturn phi))) s"
  "unary (Suc n) registry s =
     palt (modalFormula n registry)
       (palt (negation n registry)
          (pbind (predicate n registry) (\<lambda>p. preturn (PredicateFormula p)))) s"
  "negation (Suc n) registry s =
     pbind (skip (qi_char (CHR ''~''))) (\<lambda>_.
       pbind (palt (unary n registry) (brackets n registry)) (\<lambda>phi. preturn (Formula_not phi))) s"
  "modalFormula (Suc n) registry s =
     palt (belief n registry)
       (palt (knowledge n registry) (palt (oncePast n registry) (alwaysPast n registry))) s"
  "belief (Suc n) registry s =
     modal (CHR ''B'') createB registry (palt (unary n registry) (brackets n registry)) s"
  "knowledge (Suc n) registry s =
     modal (CHR ''K'') createK registry (palt (unary n registry) (brackets n registry)) s"
  "oncePast (Suc n) registry s =
     modal (CHR ''P'') createP registry (palt (unary n registry) (brackets n registry)) s"
  "alwaysPast (Suc n) registry s =
     modal (CHR ''H'') createH registry (palt (unary n registry) (brackets n registry)) s"
  "compound (Suc n) registry s =
     pbind (atomRaw registry) (\<lambda>f. pbind (qi_char (CHR ''('')) (\<lambda>_.
       pbind (plist (argument n registry) (qi_char (CHR '',''))) (\<lambda>arguments.
         pbind (qi_char (CHR '')'')) (\<lambda>_. preturn (Predicate_new f arguments))))) s"
  "argument (Suc n) registry s =
     palt (compound n registry)
       (palt variable (palt (constant_rule registry) (constantList registry))) s"
  by simp_all

lemmas rules_unapplied = formula.simps implication.simps disjunction.simps conjunction.simps
  brackets.simps unary.simps negation.simps modalFormula.simps belief.simps knowledge.simps
  oncePast.simps alwaysPast.simps compound.simps argument.simps

lemma fuel10: "n + 10 = Suc (Suc (Suc (Suc (Suc (Suc (Suc (Suc (Suc (Suc n)))))))))" by simp

lemma parse_and_or: "parse (n + 10) registry ''p,q;r'' =
  Inr (Disjunction [Conjunction [PredicateFormula (Predicate_new ''p'' []), PredicateFormula (Predicate_new ''q'' [])],
     PredicateFormula (Predicate_new ''r'' [])])"
  unfolding fuel10 by (simp del: rules_unapplied add: rules_applied parser_defs)

lemma parse_or_and: "parse (n + 10) registry ''p;q,r'' =
  Inr (Disjunction [PredicateFormula (Predicate_new ''p'' []),
     Conjunction [PredicateFormula (Predicate_new ''q'' []), PredicateFormula (Predicate_new ''r'' [])]])"
  unfolding fuel10 by (simp del: rules_unapplied add: rules_applied parser_defs)

lemma parse_impl_impl: "parse (n + 10) registry ''p->q->r'' =
  Inr (Implication (PredicateFormula (Predicate_new ''p'' []))
     (Implication (PredicateFormula (Predicate_new ''q'' [])) (PredicateFormula (Predicate_new ''r'' []))))"
  unfolding fuel10 by (simp del: rules_unapplied add: rules_applied parser_defs)

text \<open>
  Claim C4 (parser precedence): \<open>p,q;r\<close> parses to the disjunction of the
  conjunction of \<open>p\<close> and \<open>q\<close> with \<open>r\<close>, \<open>p;q,r\<close> to the disjunction of \<open>p\<close>
  with the conjunction of \<open>q\<close> and \<open>r\<close>, and \<open>p->q->r\<close> to the implication of
  \<open>p\<close> with the implication of \<open>q\<close> and \<open>r\<close>; for every prefix registry and
  every amount of fuel from 10 on.
\<close>

theorem parser_precedence:
  "parse (n + 10) registry ''p,q;r'' =
     Inr (Disjunction
            [Conjunction [PredicateFormula (Predicate_new ''p'' []),
                          PredicateFormula (Predicate_new ''q'' [])],
             PredicateFormula (Predicate_new ''r'' [])]) \<and>
   parse (n + 10) registry ''p;q,r'' =
     Inr (Disjunction
            [PredicateFormula (Predicate_new ''p'' []),
             Conjunction [PredicateFormula (Predicate_new ''q'' []),
                          PredicateFormula (Predicate_new ''r'' [])]]) \<and>
   parse (n + 10) registry ''p->q->r'' =
     Inr (Implication (PredicateFormula (Predicate_new ''p'' []))
            (Implication (PredicateFormula (Predicate_new ''q'' []))
               (PredicateFormula (Predicate_new ''r'' []))))"
  using parse_and_or [of n registry] parse_or_and [of n registry] parse_impl_impl [of n registry]
  by simp

lemma parse_empty_first: "parse (n + 10) registry ''P[,10.0] p(x)'' = Inl (QueryError_InvalidSyntax ''P[,10.0] p(x)'')"
  unfolding fuel10 by (simp del: rules_unapplied add: rules_applied parser_defs number_defs)

lemma parse_empty_second: "parse (n + 10) registry ''P[10,] p(x)'' = Inl (QueryError_InvalidSyntax ''P[10,] p(x)'')"
  unfolding fuel10 by (simp del: rules_unapplied add: rules_applied parser_defs number_defs)

lemma parse_full_interval: "parse (n + 10) registry ''P[10,20] p(x)'' =
   Inr (ModalFormula (PastModality_P (Some (TimeInterval (Some (Finite 10)) (Some (Finite 20)))))
          (PredicateFormula (Predicate_new ''p'' [StringTerm ''x''])))"
  unfolding fuel10
  by (simp del: rules_unapplied add: rules_applied parser_defs number_defs option_defs)

text \<open>
  Claim C5: an option list with an empty positional slot, as in \<open>P[,10.0] p(x)\<close> or
  \<open>P[10,] p(x)\<close>, parses to a time interval with the other side absent. The rule
  \<open>options\<close> is a list of at least one option separated by commas and no option
  matches the empty string, so both inputs of the test
  \<open>ModalityWithEmptyArguments\<close> are rejected with the syntax error.
\<close>

theorem empty_option_slot_rejected:
  "parse (n + 10) registry ''P[,10.0] p(x)'' = Inl (QueryError_InvalidSyntax ''P[,10.0] p(x)'') \<and>
   parse (n + 10) registry ''P[10,] p(x)'' = Inl (QueryError_InvalidSyntax ''P[10,] p(x)'')"
  using parse_empty_first [of n registry] parse_empty_second [of n registry]
  by simp

section \<open>Unrecognized options\<close>

lemma spec_named_wf:
  "option_wf (Predicate ind arguments) \<Longrightarrow> indicator_arity ind = 2 \<Longrightarrow>
   \<exists>key val. arguments = [key, val]"
  by (cases arguments; cases "tl arguments"; cases "tl (tl arguments)") auto

lemma createB_body_spec:
  assumes "option_wf opt" and "holds_B vars S ns nf"
  shows "case spec_assigns_B S ns nf opt of
           None \<Rightarrow> createB_body opt vars = Inl (QueryError_UnrecognizedOption opt)
         | Some p \<Rightarrow>
             if p \<in> S then createB_body opt vars = Inl (QueryError_UnrecognizedOption opt)
             else \<exists>vars'. createB_body opt vars = Inr vars' \<and>
                    holds_B vars' (insert p S) (count_if (termType opt = STRING) ns)
                      (count_if (termType opt = DOUBLE) nf)"
proof (cases opt)
  case (Predicate ind arguments)
  show ?thesis
  proof (cases "indicator_arity ind = 2")
    case True
    with assms Predicate obtain key val where args: "arguments = [key, val]"
      using spec_named_wf by blast
    from assms(2) show ?thesis
      by (cases val) (auto simp: Predicate args True spec_assigns_B_def spec_named_def createB_body_def
          holds_B_def count_if_def reportUnrecognized_def Let_def)
  next
    case False
    then show ?thesis
      by (auto simp: Predicate spec_assigns_B_def spec_named_def createB_body_def
          reportUnrecognized_def Let_def split: list.splits)
  qed
qed (use assms(2) in \<open>auto simp: spec_assigns_B_def spec_named_def createB_body_def holds_B_def
      count_if_def reportUnrecognized_def Let_def\<close>)

lemma createK_body_spec:
  assumes "option_wf opt" and "holds_K vars S ns nf"
  shows "case spec_assigns_K S ns nf opt of
           None \<Rightarrow> createK_body opt vars = Inl (QueryError_UnrecognizedOption opt)
         | Some p \<Rightarrow>
             if p \<in> S then createK_body opt vars = Inl (QueryError_UnrecognizedOption opt)
             else \<exists>vars'. createK_body opt vars = Inr vars' \<and>
                    holds_K vars' (insert p S) (count_if (termType opt = STRING) ns)
                      (count_if (termType opt = DOUBLE) nf)"
proof (cases opt)
  case (Predicate ind arguments)
  show ?thesis
  proof (cases "indicator_arity ind = 2")
    case True
    with assms Predicate obtain key val where args: "arguments = [key, val]"
      using spec_named_wf by blast
    from assms(2) show ?thesis
      by (cases val) (auto simp: Predicate args True spec_assigns_K_def spec_named_def createK_body_def
          holds_K_def count_if_def reportUnrecognized_def Let_def)
  next
    case False
    then show ?thesis
      by (auto simp: Predicate spec_assigns_K_def spec_named_def createK_body_def
          reportUnrecognized_def Let_def split: list.splits)
  qed
qed (use assms(2) in \<open>auto simp: spec_assigns_K_def spec_named_def createK_body_def holds_K_def
      count_if_def reportUnrecognized_def Let_def\<close>)

lemma readTimeInterval_body_amended:
  assumes "option_wf opt" and "holds_PH vars S ns nf"
  shows "case amended_assigns_PH S ns nf opt of
           None \<Rightarrow> readTimeInterval_body opt vars = Inl (QueryError_UnrecognizedOption opt)
         | Some p \<Rightarrow>
             if p \<in> S then readTimeInterval_body opt vars = Inl (QueryError_UnrecognizedOption opt)
             else \<exists>vars'. readTimeInterval_body opt vars = Inr vars' \<and>
                    holds_PH vars' (insert p S) (count_if (termType opt = STRING) ns)
                      (count_if (termType opt = DOUBLE) nf)"
proof (cases opt)
  case (Predicate ind arguments)
  show ?thesis
  proof (cases "indicator_arity ind = 2")
    case True
    with assms Predicate obtain key val where args: "arguments = [key, val]"
      using spec_named_wf by blast
    from assms(2) show ?thesis
      by (cases val) (auto simp: Predicate args True amended_assigns_PH_def spec_named_def
          readTimeInterval_body_def holds_PH_def reportUnrecognized_def Let_def)
  next
    case False
    then show ?thesis
      by (auto simp: Predicate amended_assigns_PH_def spec_named_def readTimeInterval_body_def
          reportUnrecognized_def Let_def split: list.splits)
  qed
qed (use assms(2) in \<open>auto simp: amended_assigns_PH_def spec_named_def readTimeInterval_body_def
      holds_PH_def reportUnrecognized_def Let_def\<close>)

lemma for_each_option_unrecognized:
  assumes step: "\<And>opt vars S ns nf. option_wf opt \<Longrightarrow> holds vars S ns nf \<Longrightarrow>
      (case assigns S ns nf opt of
         None \<Rightarrow> body opt vars = Inl (QueryError_UnrecognizedOption opt)
       | Some p \<Rightarrow>
           if p \<in> S then body opt vars = Inl (QueryError_UnrecognizedOption opt)
           else \<exists>vars'. body opt vars = Inr vars' \<and>
                  holds vars' (insert p S) (count_if (termType opt = STRING) ns)
                    (count_if (termType opt = DOUBLE) nf))"
    and wf: "\<forall>opt\<in>set opts. option_wf opt"
    and holds: "holds vars S ns nf"
    and first: "spec_first_unrecognized assigns S ns nf opts = Some bad"
  shows "for_each_option body opts vars = Inl (QueryError_UnrecognizedOption bad)"
  using wf holds first
proof (induction opts arbitrary: vars S ns nf)
  case Nil
  then show ?case by simp
next
  case (Cons opt rest)
  from Cons.prems(1) have wf_opt: "option_wf opt" and wf_rest: "\<forall>o'\<in>set rest. option_wf o'"
    by simp_all
  note st = step [OF wf_opt Cons.prems(2)]
  show ?case
  proof (cases "assigns S ns nf opt")
    case None
    with st Cons.prems(3) show ?thesis by simp
  next
    case (Some p)
    show ?thesis
    proof (cases "p \<in> S")
      case True
      with Some st Cons.prems(3) show ?thesis by simp
    next
      case False
      with Some st obtain vars' where
        b: "body opt vars = Inr vars'" and
        h: "holds vars' (insert p S) (count_if (termType opt = STRING) ns)
              (count_if (termType opt = DOUBLE) nf)"
        by auto
      from Cons.prems(3) Some False
      have "spec_first_unrecognized assigns (insert p S) (count_if (termType opt = STRING) ns)
              (count_if (termType opt = DOUBLE) nf) rest = Some bad" by simp
      from Cons.IH [OF wf_rest h this] b show ?thesis by simp
    qed
  qed
qed

lemma first_unrecognized_nonempty:
  "spec_first_unrecognized assigns assigned ns nf opts = Some bad \<Longrightarrow> opts \<noteq> []"
  by (cases opts) auto

lemma createB_unrecognized:
  assumes "\<forall>opt\<in>set opts. option_wf opt"
    and "spec_first_unrecognized spec_assigns_B {} 0 0 opts = Some bad"
  shows "createB (Some (ListTerm opts)) = Inl (QueryError_UnrecognizedOption bad)"
proof -
  have "holds_B (None, None) {} 0 0" by (simp add: holds_B_def)
  from for_each_option_unrecognized [where assigns = spec_assigns_B and holds = holds_B
      and body = createB_body, OF createB_body_spec assms(1) this assms(2)]
  have "for_each_option createB_body opts (None, None) = Inl (QueryError_UnrecognizedOption bad)" .
  with first_unrecognized_nonempty [OF assms(2)] show ?thesis
    by (cases opts) (simp_all add: createB_def)
qed

lemma createK_unrecognized:
  assumes "\<forall>opt\<in>set opts. option_wf opt"
    and "spec_first_unrecognized spec_assigns_K {} 0 0 opts = Some bad"
  shows "createK (Some (ListTerm opts)) = Inl (QueryError_UnrecognizedOption bad)"
proof -
  have "holds_K None {} 0 0" by (simp add: holds_K_def)
  from for_each_option_unrecognized [where assigns = spec_assigns_K and holds = holds_K
      and body = createK_body, OF createK_body_spec assms(1) this assms(2)]
  have "for_each_option createK_body opts None = Inl (QueryError_UnrecognizedOption bad)" .
  with first_unrecognized_nonempty [OF assms(2)] show ?thesis
    by (cases opts) (simp_all add: createK_def)
qed

lemma readTimeInterval_unrecognized:
  assumes "\<forall>opt\<in>set opts. option_wf opt"
    and "spec_first_unrecognized amended_assigns_PH {} 0 0 opts = Some bad"
  shows "readTimeInterval opts = Inl (QueryError_UnrecognizedOption bad)"
proof -
  have "holds_PH (None, None) {} 0 0" by (simp add: holds_PH_def)
  from for_each_option_unrecognized [where assigns = amended_assigns_PH and holds = holds_PH
      and body = readTimeInterval_body, OF readTimeInterval_body_amended assms(1) this assms(2)]
  show ?thesis by (simp add: readTimeInterval_def)
qed

lemma createP_unrecognized:
  assumes "\<forall>opt\<in>set opts. option_wf opt"
    and "spec_first_unrecognized amended_assigns_PH {} 0 0 opts = Some bad"
  shows "createP (Some (ListTerm opts)) = Inl (QueryError_UnrecognizedOption bad)"
  using readTimeInterval_unrecognized [OF assms] first_unrecognized_nonempty [OF assms(2)]
  by (cases opts) (simp_all add: createP_def)

lemma createH_unrecognized:
  assumes "\<forall>opt\<in>set opts. option_wf opt"
    and "spec_first_unrecognized amended_assigns_PH {} 0 0 opts = Some bad"
  shows "createH (Some (ListTerm opts)) = Inl (QueryError_UnrecognizedOption bad)"
  using readTimeInterval_unrecognized [OF assms] first_unrecognized_nonempty [OF assms(2)]
  by (cases opts) (simp_all add: createH_def)

lemma option_rule_wf: "option registry s = Inr (Some (t, r)) \<Longrightarrow> option_wf t"
  by (auto simp: option_def keyvalue_def constant_rule_def atom_def string_rule_def number_def
      pbind_def palt_def preturn_def Predicate_new_def split: sum.splits option.splits prod.splits)

lemma many_fuel_all:
  assumes "\<And>s a r. p s = Inr (Some (a, r)) \<Longrightarrow> Q a"
  shows "many_fuel k p s = Inr (Some (as, r)) \<Longrightarrow> \<forall>a\<in>set as. Q a"
proof (induction k arbitrary: s as r)
  case 0
  then show ?case by simp
next
  case (Suc k)
  show ?case
  proof (cases "p s")
    case (Inl e)
    with Suc.prems show ?thesis by simp
  next
    case (Inr res)
    show ?thesis
    proof (cases res)
      case None
      with Inr Suc.prems show ?thesis by simp
    next
      case (Some ar)
      obtain a r1 where ar: "ar = (a, r1)" by (cases ar)
      from assms Inr Some ar have qa: "Q a" by blast
      from Suc.prems Inr Some ar obtain as' where
        "many_fuel k p r1 = Inr (Some (as', r))" and "as = a # as'"
        by (auto split: sum.splits option.splits)
      with Suc.IH qa show ?thesis by auto
    qed
  qed
qed

lemma options_wf:
  assumes "options registry s = Inr (Some (ListTerm opts, r))"
  shows "\<forall>opt\<in>set opts. option_wf opt"
proof -
  have sep: "pbind (qi_char (CHR '','')) (\<lambda>_. option registry) s' = Inr (Some (a, r')) \<Longrightarrow> option_wf a"
    for s' a r'
    by (auto simp: pbind_def dest: option_rule_wf split: sum.splits option.splits prod.splits)
  from assms obtain s1 a s2 as where
    first: "option registry s1 = Inr (Some (a, s2))" and
    rest: "many (pbind (qi_char (CHR '','')) (\<lambda>_. option registry)) s2 = Inr (Some (as, r @ '']'')) \<or>
           (\<exists>r3. many (pbind (qi_char (CHR '','')) (\<lambda>_. option registry)) s2 = Inr (Some (as, r3)))" and
    opts: "opts = a # as"
    by (auto simp: options_def plist_def pbind_def preturn_def split: sum.splits option.splits prod.splits)
  from rest obtain r3 where
    "many_fuel (Suc (length s2)) (pbind (qi_char (CHR '','')) (\<lambda>_. option registry)) s2 = Inr (Some (as, r3))"
    by (auto simp: many_def)
  from many_fuel_all [of "pbind (qi_char (CHR '','')) (\<lambda>_. option registry)" option_wf, OF sep this]
    option_rule_wf [OF first] opts
  show ?thesis by simp
qed

lemma fuel7: "n + 7 = Suc (Suc (Suc (Suc (Suc (Suc (Suc n))))))" by simp

lemma parse_modalFormula_throws:
  "modalFormula (Suc (Suc n)) registry s = Inl e \<Longrightarrow> parse (n + 7) registry s = Inl e"
  unfolding fuel7
  by (simp del: rules_unapplied add: rules_applied(1-6) parse_def parse_with_def palt_def pbind_def)

lemma modal_throws:
  assumes "skip (qi_char letter) s = Inr (Some (c, s1))"
    and "skip (options registry) s1 = Inr (Some (t, s2))"
    and "operand s2 = Inr (Some (phi, s3))"
    and "createOperator (Some t) = Inl e"
  shows "modal letter createOperator registry operand s = Inl e"
  using assms by (simp add: modal_def pbind_def palt_def pthrow_def)

lemma modal_other_letter:
  assumes "skip (qi_char letter) s = Inr (Some (c, s1))" and "letter' \<noteq> letter"
  shows "modal letter' createOperator registry operand s = Inr None"
  using assms by (auto simp: modal_def pbind_def skip_def qi_char_def split: list.splits if_splits)

lemma modalFormula_throws:
  assumes l: "skip (qi_char letter) s = Inr (Some (c, s1))"
    and o: "skip (options registry) s1 = Inr (Some (t, s2))"
    and p: "palt (unary n registry) (brackets n registry) s2 = Inr (Some (phi, s3))"
  shows "letter = CHR ''B'' \<Longrightarrow> createB (Some t) = Inl e \<Longrightarrow>
           modalFormula (Suc (Suc n)) registry s = Inl e"
    and "letter = CHR ''K'' \<Longrightarrow> createK (Some t) = Inl e \<Longrightarrow>
           modalFormula (Suc (Suc n)) registry s = Inl e"
    and "letter = CHR ''P'' \<Longrightarrow> createP (Some t) = Inl e \<Longrightarrow>
           modalFormula (Suc (Suc n)) registry s = Inl e"
    and "letter = CHR ''H'' \<Longrightarrow> createH (Some t) = Inl e \<Longrightarrow>
           modalFormula (Suc (Suc n)) registry s = Inl e"
proof -
  note th = modal_throws [where operand = "palt (unary n registry) (brackets n registry)", OF l o p]
  note no = modal_other_letter [OF l]
  show "letter = CHR ''B'' \<Longrightarrow> createB (Some t) = Inl e \<Longrightarrow>
           modalFormula (Suc (Suc n)) registry s = Inl e"
    using th [of createB e]
    by (simp del: rules_unapplied add: rules_applied palt_def)
  show "letter = CHR ''K'' \<Longrightarrow> createK (Some t) = Inl e \<Longrightarrow>
           modalFormula (Suc (Suc n)) registry s = Inl e"
    using th [of createK e] no [of "CHR ''B''"]
    by (simp del: rules_unapplied add: rules_applied palt_def)
  show "letter = CHR ''P'' \<Longrightarrow> createP (Some t) = Inl e \<Longrightarrow>
           modalFormula (Suc (Suc n)) registry s = Inl e"
    using th [of createP e] no [of "CHR ''B''"] no [of "CHR ''K''"]
    by (simp del: rules_unapplied add: rules_applied palt_def)
  show "letter = CHR ''H'' \<Longrightarrow> createH (Some t) = Inl e \<Longrightarrow>
           modalFormula (Suc (Suc n)) registry s = Inl e"
    using th [of createH e] no [of "CHR ''B''"] no [of "CHR ''K''"] no [of "CHR ''P''"]
    by (simp del: rules_unapplied add: rules_applied palt_def)
qed

lemma parse_modal_throws:
  assumes "starts_with_modal n registry letter s opts"
  shows "letter = CHR ''B'' \<Longrightarrow> createB (Some (ListTerm opts)) = Inl e \<Longrightarrow> parse (n + 7) registry s = Inl e"
    and "letter = CHR ''K'' \<Longrightarrow> createK (Some (ListTerm opts)) = Inl e \<Longrightarrow> parse (n + 7) registry s = Inl e"
    and "letter = CHR ''P'' \<Longrightarrow> createP (Some (ListTerm opts)) = Inl e \<Longrightarrow> parse (n + 7) registry s = Inl e"
    and "letter = CHR ''H'' \<Longrightarrow> createH (Some (ListTerm opts)) = Inl e \<Longrightarrow> parse (n + 7) registry s = Inl e"
proof -
  from assms obtain c s1 s2 phi s3 where
    l: "skip (qi_char letter) s = Inr (Some (c, s1))" and
    o: "skip (options registry) s1 = Inr (Some (ListTerm opts, s2))" and
    p: "palt (unary n registry) (brackets n registry) s2 = Inr (Some (phi, s3))"
    by (auto simp: starts_with_modal_def)
  note m = modalFormula_throws [OF l o p]
  show "letter = CHR ''B'' \<Longrightarrow> createB (Some (ListTerm opts)) = Inl e \<Longrightarrow> parse (n + 7) registry s = Inl e"
    by (rule parse_modalFormula_throws) (rule m(1))
  show "letter = CHR ''K'' \<Longrightarrow> createK (Some (ListTerm opts)) = Inl e \<Longrightarrow> parse (n + 7) registry s = Inl e"
    by (rule parse_modalFormula_throws) (rule m(2))
  show "letter = CHR ''P'' \<Longrightarrow> createP (Some (ListTerm opts)) = Inl e \<Longrightarrow> parse (n + 7) registry s = Inl e"
    by (rule parse_modalFormula_throws) (rule m(3))
  show "letter = CHR ''H'' \<Longrightarrow> createH (Some (ListTerm opts)) = Inl e \<Longrightarrow> parse (n + 7) registry s = Inl e"
    by (rule parse_modalFormula_throws) (rule m(4))
qed

lemma starts_with_modal_wf:
  assumes "starts_with_modal n registry letter s opts"
  shows "\<forall>opt\<in>set opts. option_wf opt"
proof -
  from assms obtain s1 s2 where "skip (options registry) s1 = Inr (Some (ListTerm opts, s2))"
    by (auto simp: starts_with_modal_def)
  then show ?thesis
    unfolding skip_def by (rule options_wf)
qed

lemma parse_foo_fred: "parse (n + 10) registry ''B[foo=fred] p(x)'' =
   Inl (QueryError_UnrecognizedOption (Predicate_new ''='' [StringTerm ''foo'', StringTerm ''fred'']))"
  unfolding fuel10 by (simp del: rules_unapplied add: rules_applied parser_defs number_defs option_defs)

lemma parse_named_begin_positional: "parse (n + 10) registry ''P[begin=10,20] p(x)'' =
   Inr (ModalFormula (PastModality_P (Some (TimeInterval (Some (Finite 10)) (Some (Finite 20)))))
          (PredicateFormula (Predicate_new ''p'' [StringTerm ''x''])))"
  unfolding fuel10 by (simp del: rules_unapplied add: rules_applied parser_defs number_defs option_defs)

text \<open>
  Claim C6, as stated: for every modal operator, an option that is a duplicate
  assignment to an already-set parameter raises the error. In \<open>P[begin=10,20]\<close> the
  float 20 is the first positional float, which the specification assigns to the
  begin, and the begin is already set by name; the code assigns it to the end and
  accepts the list, with the interval from 10 to 20.
\<close>

theorem positional_float_after_named_begin:
  "spec_first_unrecognized spec_assigns_PH {} 0 0
     [Predicate_new ''='' [StringTerm ''begin'', DoubleTerm (Finite 10)], DoubleTerm (Finite 20)] =
     Some (DoubleTerm (Finite 20)) \<and>
   createP (Some (ListTerm
     [Predicate_new ''='' [StringTerm ''begin'', DoubleTerm (Finite 10)], DoubleTerm (Finite 20)])) =
     Inr (PastModality_P (Some (TimeInterval (Some (Finite 10)) (Some (Finite 20))))) \<and>
   parse 10 (\<lambda>prefix name. None) ''P[begin=10,20] p(x)'' =
     Inr (ModalFormula (PastModality_P (Some (TimeInterval (Some (Finite 10)) (Some (Finite 20)))))
            (PredicateFormula (Predicate_new ''p'' [StringTerm ''x''])))"
  using parse_named_begin_positional [of 0 "\<lambda>prefix name. None"]
  by (simp add: spec_assigns_PH_def spec_named_def Predicate_new_def count_if_def option_defs)

text \<open>
  Claim C6, amended: for \<open>B\<close> and \<open>K\<close>, the first option that in the words of the
  specification assigns a parameter already set, has an unknown key or has a value
  of the wrong type makes the code throw the \<open>QueryError\<close> "Unrecognized option" for
  that option; for \<open>P\<close> and \<open>H\<close> the same holds when a positional float assigns the
  begin if the begin is not set yet and the end otherwise. This holds for the
  functions that make the operators from every list of well-formed options, and for
  \<open>parse\<close> on every query that starts with a modal formula (the option lists the
  grammar reads are well-formed); and \<open>parse("B[foo=fred] p(x)")\<close> throws the error
  for \<open>foo=fred\<close>.
\<close>

theorem unrecognized_option_raises:
  "((\<forall>opt\<in>set opts. option_wf opt) \<and> spec_first_unrecognized spec_assigns_B {} 0 0 opts = Some bad \<longrightarrow>
      createB (Some (ListTerm opts)) = Inl (QueryError_UnrecognizedOption bad)) \<and>
   ((\<forall>opt\<in>set opts. option_wf opt) \<and> spec_first_unrecognized spec_assigns_K {} 0 0 opts = Some bad \<longrightarrow>
      createK (Some (ListTerm opts)) = Inl (QueryError_UnrecognizedOption bad)) \<and>
   ((\<forall>opt\<in>set opts. option_wf opt) \<and> spec_first_unrecognized amended_assigns_PH {} 0 0 opts = Some bad \<longrightarrow>
      createP (Some (ListTerm opts)) = Inl (QueryError_UnrecognizedOption bad) \<and>
      createH (Some (ListTerm opts)) = Inl (QueryError_UnrecognizedOption bad)) \<and>
   (starts_with_modal n registry (CHR ''B'') s opts \<and>
      spec_first_unrecognized spec_assigns_B {} 0 0 opts = Some bad \<longrightarrow>
      parse (n + 7) registry s = Inl (QueryError_UnrecognizedOption bad)) \<and>
   (starts_with_modal n registry (CHR ''K'') s opts \<and>
      spec_first_unrecognized spec_assigns_K {} 0 0 opts = Some bad \<longrightarrow>
      parse (n + 7) registry s = Inl (QueryError_UnrecognizedOption bad)) \<and>
   (starts_with_modal n registry (CHR ''P'') s opts \<and>
      spec_first_unrecognized amended_assigns_PH {} 0 0 opts = Some bad \<longrightarrow>
      parse (n + 7) registry s = Inl (QueryError_UnrecognizedOption bad)) \<and>
   (starts_with_modal n registry (CHR ''H'') s opts \<and>
      spec_first_unrecognized amended_assigns_PH {} 0 0 opts = Some bad \<longrightarrow>
      parse (n + 7) registry s = Inl (QueryError_UnrecognizedOption bad)) \<and>
   parse (n + 10) registry ''B[foo=fred] p(x)'' =
     Inl (QueryError_UnrecognizedOption (Predicate_new ''='' [StringTerm ''foo'', StringTerm ''fred'']))"
proof -
  have create:
    "createB (Some (ListTerm opts)) = Inl (QueryError_UnrecognizedOption bad)"
    if "\<forall>opt\<in>set opts. option_wf opt" "spec_first_unrecognized spec_assigns_B {} 0 0 opts = Some bad"
    using that by (rule createB_unrecognized)
  have createK': "createK (Some (ListTerm opts)) = Inl (QueryError_UnrecognizedOption bad)"
    if "\<forall>opt\<in>set opts. option_wf opt" "spec_first_unrecognized spec_assigns_K {} 0 0 opts = Some bad"
    using that by (rule createK_unrecognized)
  have createP': "createP (Some (ListTerm opts)) = Inl (QueryError_UnrecognizedOption bad)"
    and createH': "createH (Some (ListTerm opts)) = Inl (QueryError_UnrecognizedOption bad)"
    if "\<forall>opt\<in>set opts. option_wf opt" "spec_first_unrecognized amended_assigns_PH {} 0 0 opts = Some bad"
    using that by (rule createP_unrecognized, rule createH_unrecognized)
  have pB: "parse (n + 7) registry s = Inl (QueryError_UnrecognizedOption bad)"
    if st: "starts_with_modal n registry (CHR ''B'') s opts"
      and f: "spec_first_unrecognized spec_assigns_B {} 0 0 opts = Some bad"
    by (rule parse_modal_throws(1) [OF st refl create [OF starts_with_modal_wf [OF st] f]])
  have pK: "parse (n + 7) registry s = Inl (QueryError_UnrecognizedOption bad)"
    if st: "starts_with_modal n registry (CHR ''K'') s opts"
      and f: "spec_first_unrecognized spec_assigns_K {} 0 0 opts = Some bad"
    by (rule parse_modal_throws(2) [OF st refl createK' [OF starts_with_modal_wf [OF st] f]])
  have pP: "parse (n + 7) registry s = Inl (QueryError_UnrecognizedOption bad)"
    if st: "starts_with_modal n registry (CHR ''P'') s opts"
      and f: "spec_first_unrecognized amended_assigns_PH {} 0 0 opts = Some bad"
    by (rule parse_modal_throws(3) [OF st refl createP' [OF starts_with_modal_wf [OF st] f]])
  have pH: "parse (n + 7) registry s = Inl (QueryError_UnrecognizedOption bad)"
    if st: "starts_with_modal n registry (CHR ''H'') s opts"
      and f: "spec_first_unrecognized amended_assigns_PH {} 0 0 opts = Some bad"
    by (rule parse_modal_throws(4) [OF st refl createH' [OF starts_with_modal_wf [OF st] f]])
  from create createK' createP' createH' pB pK pP pH parse_foo_fred [of n registry]
  show ?thesis by blast
qed

lemma starts_K_fred_bob:
  "starts_with_modal 3 no_prefixes (CHR ''K'') ''K[fred,bob] q'' [StringTerm ''fred'', StringTerm ''bob'']"
  unfolding starts_with_modal_def
  by (simp del: rules_unapplied add: rules_applied parser_defs number_defs eval_nat_numeral no_prefixes_def)

lemma starts_P_three:
  "starts_with_modal 3 no_prefixes (CHR ''P'') ''P[begin=10,20,30] q''
     [Predicate_new ''='' [StringTerm ''begin'', DoubleTerm (Finite 10)], DoubleTerm (Finite 20),
      DoubleTerm (Finite 30)]"
  unfolding starts_with_modal_def
  by (simp del: rules_unapplied add: rules_applied parser_defs number_defs eval_nat_numeral no_prefixes_def)

theorem unrecognized_option_raises_witness:
  "createB (Some (ListTerm [Predicate_new ''='' [StringTerm ''foo'', StringTerm ''fred'']])) =
     Inl (QueryError_UnrecognizedOption (Predicate_new ''='' [StringTerm ''foo'', StringTerm ''fred''])) \<and>
   createB (Some (ListTerm [DoubleTerm (Finite (4 / 5)), DoubleTerm (Finite (4 / 5))])) =
     Inl (QueryError_UnrecognizedOption (DoubleTerm (Finite (4 / 5)))) \<and>
   createB (Some (ListTerm [Predicate_new ''='' [StringTerm ''agent'', DoubleTerm (Finite (4 / 5))]])) =
     Inl (QueryError_UnrecognizedOption
            (Predicate_new ''='' [StringTerm ''agent'', DoubleTerm (Finite (4 / 5))])) \<and>
   createK (Some (ListTerm [DoubleTerm (Finite (4 / 5))])) =
     Inl (QueryError_UnrecognizedOption (DoubleTerm (Finite (4 / 5)))) \<and>
   createH (Some (ListTerm [StringTerm ''fred''])) =
     Inl (QueryError_UnrecognizedOption (StringTerm ''fred'')) \<and>
   starts_with_modal 3 no_prefixes (CHR ''K'') ''K[fred,bob] q'' [StringTerm ''fred'', StringTerm ''bob''] \<and>
   parse 10 no_prefixes ''K[fred,bob] q'' = Inl (QueryError_UnrecognizedOption (StringTerm ''bob'')) \<and>
   starts_with_modal 3 no_prefixes (CHR ''P'') ''P[begin=10,20,30] q''
     [Predicate_new ''='' [StringTerm ''begin'', DoubleTerm (Finite 10)], DoubleTerm (Finite 20),
      DoubleTerm (Finite 30)] \<and>
   parse 10 no_prefixes ''P[begin=10,20,30] q'' =
     Inl (QueryError_UnrecognizedOption (DoubleTerm (Finite 30)))"
proof -
  let ?unknown = "Predicate_new ''='' [StringTerm ''foo'', StringTerm ''fred'']"
  let ?mismatch = "Predicate_new ''='' [StringTerm ''agent'', DoubleTerm (Finite (4 / 5))]"
  let ?c = "DoubleTerm (Finite (4 / 5))"
  let ?three = "[Predicate_new ''='' [StringTerm ''begin'', DoubleTerm (Finite 10)],
                 DoubleTerm (Finite 20), DoubleTerm (Finite 30)]"
  have wf: "\<forall>opt\<in>set [?unknown]. option_wf opt" "\<forall>opt\<in>set [?c, ?c]. option_wf opt"
    "\<forall>opt\<in>set [?mismatch]. option_wf opt" "\<forall>opt\<in>set [?c]. option_wf opt"
    "\<forall>opt\<in>set [StringTerm ''fred'']. option_wf opt"
    by (simp_all add: Predicate_new_def)
  have first:
    "spec_first_unrecognized spec_assigns_B {} 0 0 [?unknown] = Some ?unknown"
    "spec_first_unrecognized spec_assigns_B {} 0 0 [?c, ?c] = Some ?c"
    "spec_first_unrecognized spec_assigns_B {} 0 0 [?mismatch] = Some ?mismatch"
    "spec_first_unrecognized spec_assigns_K {} 0 0 [?c] = Some ?c"
    "spec_first_unrecognized amended_assigns_PH {} 0 0 [StringTerm ''fred''] = Some (StringTerm ''fred'')"
    "spec_first_unrecognized spec_assigns_K {} 0 0 [StringTerm ''fred'', StringTerm ''bob''] =
       Some (StringTerm ''bob'')"
    "spec_first_unrecognized amended_assigns_PH {} 0 0 ?three = Some (DoubleTerm (Finite 30))"
    by (simp_all add: spec_assigns_B_def spec_assigns_K_def amended_assigns_PH_def spec_named_def
        Predicate_new_def count_if_def)
  from unrecognized_option_raises [of "[?unknown]" ?unknown]
    unrecognized_option_raises [of "[?c, ?c]" ?c]
    unrecognized_option_raises [of "[?mismatch]" ?mismatch]
    unrecognized_option_raises [of "[?c]" ?c]
    unrecognized_option_raises [of "[StringTerm ''fred'']" "StringTerm ''fred''"]
    unrecognized_option_raises [of "[StringTerm ''fred'', StringTerm ''bob'']" "StringTerm ''bob''"
      3 no_prefixes "''K[fred,bob] q''"]
    unrecognized_option_raises [of ?three "DoubleTerm (Finite 30)" 3 no_prefixes "''P[begin=10,20,30] q''"]
    wf first starts_K_fred_bob starts_P_three
  show ?thesis by simp
qed

end
